theory Spec2Isabelle
  imports Complex_Main "HOL-Library.Multiset"
begin
section \<open>Go strings, runes and the string helpers of the standard library\<close>

text \<open>
  A Go string is a sequence of bytes; it is modelled as a \<open>string\<close> (a list of 8-bit
  characters). The length of a Go string fits in an \<open>int\<close> (64 bits), which
  \<open>go_string\<close> records.
\<close>

definition go_string :: "string \<Rightarrow> bool" where
  "go_string s = (int (length s) < 2 ^ 63)"

definition RuneError :: nat where
  "RuneError = 0xFFFD"

text \<open>
  \<open>utf8.DecodeRuneInString\<close>: the first rune of a string and its width in bytes. A byte
  that starts no well-formed encoding decodes to \<open>RuneError\<close> with width 1.
\<close>

definition locb :: nat where "locb = 0x80"
definition hicb :: nat where "hicb = 0xBF"

definition first_size :: "nat \<Rightarrow> nat" where
  "first_size s0 = (if s0 < 0xE0 then 2 else if s0 < 0xF0 then 3 else 4)"

definition accept_lo :: "nat \<Rightarrow> nat" where
  "accept_lo s0 = (if s0 = 0xE0 then 0xA0 else if s0 = 0xF0 then 0x90 else locb)"

definition accept_hi :: "nat \<Rightarrow> nat" where
  "accept_hi s0 = (if s0 = 0xED then 0x9F else if s0 = 0xF4 then 0x8F else hicb)"

definition byte_at :: "string \<Rightarrow> nat \<Rightarrow> nat" where
  "byte_at s i = of_char (s ! i)"

definition DecodeRuneInString :: "string \<Rightarrow> nat \<times> nat" where
  "DecodeRuneInString s =
     (let n = length s in
      if n < 1 then (RuneError, 0)
      else let s0 = byte_at s 0 in
        if s0 < 0x80 then (s0, 1)
        else if s0 < 0xC2 \<or> 0xF4 < s0 then (RuneError, 1)
        else let sz = first_size s0 in
          if n < sz then (RuneError, 1)
          else let s1 = byte_at s 1 in
            if s1 < accept_lo s0 \<or> accept_hi s0 < s1 then (RuneError, 1)
            else if sz \<le> 2 then ((s0 mod 32) * 64 + s1 mod 64, 2)
            else let s2 = byte_at s 2 in
              if s2 < locb \<or> hicb < s2 then (RuneError, 1)
              else if sz \<le> 3 then ((s0 mod 16) * 4096 + (s1 mod 64) * 64 + s2 mod 64, 3)
              else let s3 = byte_at s 3 in
                if s3 < locb \<or> hicb < s3 then (RuneError, 1)
                else ((s0 mod 8) * 262144 + (s1 mod 64) * 4096 + (s2 mod 64) * 64
                        + s3 mod 64, 4))"

text \<open>
  The runes of a string in order, each with the bytes that encode it: what
  \<open>for _, r := range s\<close> and the regular-expression engine step through.
\<close>

fun runes :: "string \<Rightarrow> (nat \<times> string) list" where
  "runes [] = []"
| "runes (c # cs) =
     (fst (DecodeRuneInString (c # cs)), take (snd (DecodeRuneInString (c # cs))) (c # cs))
       # runes (drop (snd (DecodeRuneInString (c # cs)) - 1) cs)"

text \<open>\<open>unicode.IsSpace\<close>: the Latin-1 cases and the White_Space table.\<close>

definition IsSpace :: "nat \<Rightarrow> bool" where
  "IsSpace r =
     (if r \<le> 0xFF then r = 0x09 \<or> r = 0x0A \<or> r = 0x0B \<or> r = 0x0C \<or> r = 0x0D \<or> r = 0x20
                         \<or> r = 0x85 \<or> r = 0xA0
      else r = 0x1680 \<or> (0x2000 \<le> r \<and> r \<le> 0x200A) \<or> r = 0x2028 \<or> r = 0x2029
           \<or> r = 0x202F \<or> r = 0x205F \<or> r = 0x3000)"

text \<open>
  \<open>strings.FieldsFunc\<close>: the loop over the runes keeps the span that is open
  (\<open>start >= 0\<close> in the source, \<open>Some w\<close> here) and closes it at a separator.
\<close>

fun spans :: "(nat \<Rightarrow> bool) \<Rightarrow> string option \<Rightarrow> (nat \<times> string) list \<Rightarrow> string list" where
  "spans f cur [] = (case cur of None \<Rightarrow> [] | Some w \<Rightarrow> [w])"
| "spans f cur ((r, bs) # rest) =
     (if f r then (case cur of None \<Rightarrow> spans f None rest | Some w \<Rightarrow> w # spans f None rest)
      else spans f (Some (case cur of None \<Rightarrow> bs | Some w \<Rightarrow> w @ bs)) rest)"

definition FieldsFunc :: "string \<Rightarrow> (nat \<Rightarrow> bool) \<Rightarrow> string list" where
  "FieldsFunc s f = spans f None (runes s)"

definition Fields :: "string \<Rightarrow> string list" where
  "Fields s = FieldsFunc s IsSpace"

fun Join :: "string list \<Rightarrow> string \<Rightarrow> string" where
  "Join [] sep = []"
| "Join [x] sep = x"
| "Join (x # y # ys) sep = x @ sep @ Join (y # ys) sep"

section \<open>Go integers and run-time panics\<close>

text \<open>
  \<open>int\<close> is 64 bits wide on the platforms the program targets; addition and
  subtraction wrap around.
\<close>

definition int_add :: "int \<Rightarrow> int \<Rightarrow> int" where
  "int_add a b = signed_take_bit 63 (a + b)"

definition int_sub :: "int \<Rightarrow> int \<Rightarrow> int" where
  "int_sub a b = signed_take_bit 63 (a - b)"

datatype go_panic = SliceBoundsOutOfRange | IndexOutOfRange

text \<open>The slice expression \<open>xs[i:j]\<close> for \<open>j \<le> len(xs)\<close>; it panics unless \<open>0 \<le> i \<le> j\<close>.\<close>

definition slice :: "'a list \<Rightarrow> int \<Rightarrow> int \<Rightarrow> go_panic + 'a list" where
  "slice xs i j =
     (if i < 0 \<or> j < i \<or> int (length xs) < j then Inl SliceBoundsOutOfRange
      else Inr (take (nat j - nat i) (drop (nat i) xs)))"

section \<open>The chunker\<close>

text \<open>
  The loop of \<open>ChunkText\<close>. With \<open>chunkSize - overlap \<le> 0\<close> the source can loop for ever,
  so the loop is a partial function: \<open>None\<close> is "does not return".
\<close>

partial_function (option) ChunkText_loop ::
  "string list \<Rightarrow> int \<Rightarrow> int \<Rightarrow> int \<Rightarrow> string list \<Rightarrow> (go_panic + string list) option"
where
  "ChunkText_loop words chunkSize overlap i chunks =
     (if i < int (length words) then
        (let end0 = int_add i chunkSize;
             end1 = (if end0 > int (length words) then int (length words) else end0)
         in case slice words i end1 of
              Inl p \<Rightarrow> Some (Inl p)
            | Inr ws \<Rightarrow>
                (let chunks' = chunks @ [Join ws '' '']
                 in if end1 = int (length words) then Some (Inr chunks')
                    else ChunkText_loop words chunkSize overlap
                           (int_add i (int_sub chunkSize overlap)) chunks'))
      else Some (Inr chunks))"

declare ChunkText_loop.simps [code]

definition ChunkText :: "string \<Rightarrow> int \<Rightarrow> int \<Rightarrow> (go_panic + string list) option" where
  "ChunkText text chunkSize overlap =
     (let words = Fields text
      in if int (length words) \<le> chunkSize then Some (Inr [text])
         else ChunkText_loop words chunkSize overlap 0 [])"

subsection \<open>The sliding windows as the specification describes them\<close>

text \<open>
  The number of chunks and the \<open>j\<close>-th window of words, written from the specification's
  formula; the theorem on \<open>ChunkText\<close> compares the loop with them.
\<close>

definition chunk_count :: "nat \<Rightarrow> int \<Rightarrow> int \<Rightarrow> nat" where
  "chunk_count w chunkSize overlap =
     nat \<lceil>(real w - real_of_int chunkSize) / real_of_int (chunkSize - overlap)\<rceil> + 1"

definition window :: "'a list \<Rightarrow> int \<Rightarrow> int \<Rightarrow> nat \<Rightarrow> 'a list" where
  "window words chunkSize overlap j =
     (let lo = j * nat (chunkSize - overlap); hi = min (lo + nat chunkSize) (length words)
      in take (hi - lo) (drop lo words))"

section \<open>Floating-point numbers and the similarity scorer\<close>

text \<open>
  The arithmetic of \<open>float64\<close> (rounding, overflow, the special values) is not defined
  here: the operations the program uses are taken as parameters, so that every statement
  below holds for the IEEE operations as for any others. \<open>f_eq\<close> and \<open>f_gt\<close> are the
  comparisons \<open>==\<close> and \<open>>\<close>; \<open>f_format\<close> and \<open>f_parse\<close> are the conversions of package
  \<open>strconv\<close> that \<open>encoding/json\<close> calls (\<open>f_format\<close> gives \<open>None\<close> for the values JSON
  cannot carry, which the encoder reports as an unsupported value).
\<close>

record 'f float64_ops =
  f_zero :: 'f
  f_add :: "'f \<Rightarrow> 'f \<Rightarrow> 'f"
  f_mul :: "'f \<Rightarrow> 'f \<Rightarrow> 'f"
  f_div :: "'f \<Rightarrow> 'f \<Rightarrow> 'f"
  f_sqrt :: "'f \<Rightarrow> 'f"
  f_eq :: "'f \<Rightarrow> 'f \<Rightarrow> bool"
  f_gt :: "'f \<Rightarrow> 'f \<Rightarrow> bool"
  f_format :: "'f \<Rightarrow> string option"
  f_parse :: "string \<Rightarrow> 'f option"

text \<open>
  The loop \<open>for i := range a\<close> of \<open>cosineSimilarity\<close>, with its three accumulators. The
  index \<open>i\<close> is below \<open>len(a)\<close>; reading \<open>b[i]\<close> panics when \<open>i\<close> is not below \<open>len(b)\<close>.
\<close>

function cosine_loop ::
  "'f float64_ops \<Rightarrow> 'f list \<Rightarrow> 'f list \<Rightarrow> nat \<Rightarrow> 'f \<times> 'f \<times> 'f \<Rightarrow> go_panic + 'f \<times> 'f \<times> 'f"
where
  "cosine_loop F a b i (dotProduct, normA, normB) =
     (if i < length a then
        (if length b \<le> i then Inl IndexOutOfRange
         else cosine_loop F a b (Suc i)
                (f_add F dotProduct (f_mul F (a ! i) (b ! i)),
                 f_add F normA (f_mul F (a ! i) (a ! i)),
                 f_add F normB (f_mul F (b ! i) (b ! i))))
      else Inr (dotProduct, normA, normB))"
  by pat_completeness auto
termination
  by (relation "measure (\<lambda>(F, a, b, i, acc). length a - i)") auto

definition cosineSimilarity :: "'f float64_ops \<Rightarrow> 'f list \<Rightarrow> 'f list \<Rightarrow> go_panic + 'f" where
  "cosineSimilarity F a b =
     (if length a \<noteq> length b then Inr (f_zero F)
      else case cosine_loop F a b 0 (f_zero F, f_zero F, f_zero F) of
             Inl p \<Rightarrow> Inl p
           | Inr (dotProduct, normA0, normB0) \<Rightarrow>
               (let normA = f_sqrt F normA0; normB = f_sqrt F normB0
                in if f_eq F normA (f_zero F) \<or> f_eq F normB (f_zero F) then Inr (f_zero F)
                   else Inr (f_div F dotProduct (f_mul F normA normB))))"

subsection \<open>Dot product and norm as the specification names them\<close>

text \<open>
  The dot product and the Euclidean norm of the specification's formula, summed from the
  left in the program's arithmetic.
\<close>

definition dot :: "'f float64_ops \<Rightarrow> 'f list \<Rightarrow> 'f list \<Rightarrow> 'f" where
  "dot F a b = foldl (\<lambda>s (x, y). f_add F s (f_mul F x y)) (f_zero F) (zip a b)"

definition norm2 :: "'f float64_ops \<Rightarrow> 'f list \<Rightarrow> 'f" where
  "norm2 F a = f_sqrt F (foldl (\<lambda>s x. f_add F s (f_mul F x x)) (f_zero F) a)"

definition cos_sim :: "'f float64_ops \<Rightarrow> 'f list \<Rightarrow> 'f list \<Rightarrow> 'f" where
  "cos_sim F a b =
     (if length a \<noteq> length b \<or> f_eq F (norm2 F a) (f_zero F) \<or> f_eq F (norm2 F b) (f_zero F)
      then f_zero F
      else f_div F (dot F a b) (f_mul F (norm2 F a) (norm2 F b)))"

text \<open>The operations on the real numbers, an instance to evaluate the definitions on.\<close>

definition real_ops :: "real float64_ops" where
  "real_ops = \<lparr> f_zero = 0, f_add = (+), f_mul = (*), f_div = (/), f_sqrt = sqrt,
                f_eq = (=), f_gt = (\<lambda>x y. y < x),
                f_format = (\<lambda>x. None), f_parse = (\<lambda>s. None) \<rparr>"

section \<open>Text cleanup and number formatting\<close>

text \<open>
  \<open>strings.TrimSpace\<close>: the string without the white-space runes at its two ends.
\<close>

definition TrimSpace :: "string \<Rightarrow> string" where
  "TrimSpace s =
     concat (map snd
       (rev (dropWhile (\<lambda>p. IsSpace (fst p))
         (rev (dropWhile (\<lambda>p. IsSpace (fst p)) (runes s))))))"

text \<open>
  \<open>regexp.ReplaceAllString\<close> for a pattern \<open>[class]+\<close>: every maximal run of runes of the
  class is replaced by \<open>repl\<close> (a replacement without \<open>$\<close>). The flag tells whether the
  previous rune belonged to a run.
\<close>

fun replace_runs :: "(nat \<Rightarrow> bool) \<Rightarrow> string \<Rightarrow> bool \<Rightarrow> (nat \<times> string) list \<Rightarrow> string" where
  "replace_runs cls repl inrun [] = []"
| "replace_runs cls repl inrun ((r, bs) # rest) =
     (if cls r then (if inrun then [] else repl) @ replace_runs cls repl True rest
      else bs @ replace_runs cls repl False rest)"

definition ReplaceAllString :: "(nat \<Rightarrow> bool) \<Rightarrow> string \<Rightarrow> string \<Rightarrow> string" where
  "ReplaceAllString cls src repl = replace_runs cls repl False (runes src)"

text \<open>The class \<open>\s\<close> of the regular-expression syntax: tab, line feed, form feed, carriage
  return and space.\<close>

definition perl_space :: "nat \<Rightarrow> bool" where
  "perl_space r = (r = 0x09 \<or> r = 0x0A \<or> r = 0x0C \<or> r = 0x0D \<or> r = 0x20)"

text \<open>
  \<open>cleanText\<close>. The Unicode tables of the categories L, N, P and Z are not part of the
  program: \<open>lnpz\<close> is the set of runes in one of these categories.
\<close>

definition cleanText :: "(nat \<Rightarrow> bool) \<Rightarrow> string \<Rightarrow> string" where
  "cleanText lnpz text =
     (let text1 = ReplaceAllString perl_space text '' '';
          text2 = ReplaceAllString (\<lambda>r. \<not> lnpz r) text1 '' ''
      in TrimSpace text2)"

text \<open>Decimal and hexadecimal formatting, as \<open>%d\<close> and \<open>%x\<close> of \<open>fmt.Sprintf\<close> print them.\<close>

definition digit_char :: "nat \<Rightarrow> char" where
  "digit_char d = char_of (if d < 10 then 48 + d else 87 + d)"

function dec_digits :: "nat \<Rightarrow> string" where
  "dec_digits n = (if n < 10 then [digit_char n] else dec_digits (n div 10) @ [digit_char (n mod 10)])"
  by pat_completeness auto
termination
  by (relation "measure id") auto

declare dec_digits.simps [simp del]

definition Itoa :: "int \<Rightarrow> string" where
  "Itoa i = (if i < 0 then ''-'' @ dec_digits (nat (- i)) else dec_digits (nat i))"

definition hex_bytes :: "string \<Rightarrow> string" where
  "hex_bytes bs =
     concat (map (\<lambda>c. [digit_char ((of_char c :: nat) div 16), digit_char ((of_char c :: nat) mod 16)]) bs)"

text \<open>
  \<open>strconv.ParseInt(s, 10, 64)\<close>: an optional sign, then at least one decimal digit; the
  value must fit in 64 bits.
\<close>

definition is_digit :: "char \<Rightarrow> bool" where
  "is_digit c = (48 \<le> (of_char c :: nat) \<and> (of_char c :: nat) \<le> 57)"

definition digits_value :: "string \<Rightarrow> nat" where
  "digits_value ds = foldl (\<lambda>acc c. acc * 10 + ((of_char c :: nat) - 48)) 0 ds"

definition ParseInt :: "string \<Rightarrow> int option" where
  "ParseInt s =
     (let neg = (s \<noteq> [] \<and> hd s = CHR ''-'');
          ds = (if s \<noteq> [] \<and> (hd s = CHR ''-'' \<or> hd s = CHR ''+'') then tl s else s)
      in if ds = [] \<or> \<not> list_all is_digit ds then None
         else let n = (if neg then - int (digits_value ds) else int (digits_value ds))
              in if - (2 ^ 63) \<le> n \<and> n < 2 ^ 63 then Some n else None)"

text \<open>\<open>utf8.ValidString\<close>, and the coercion to valid UTF-8 that \<open>encoding/json\<close> applies to
  the strings it writes: every byte that is not part of a well-formed encoding becomes
  the replacement character U+FFFD.\<close>

definition ill_formed :: "nat \<times> string \<Rightarrow> bool" where
  "ill_formed p = (fst p = RuneError \<and> length (snd p) = 1)"

definition ValidString :: "string \<Rightarrow> bool" where
  "ValidString s = (\<not> list_ex ill_formed (runes s))"

definition ToValidUTF8 :: "string \<Rightarrow> string" where
  "ToValidUTF8 s =
     concat (map (\<lambda>p. if ill_formed p then [CHR 0xEF, CHR 0xBF, CHR 0xBD] else snd p) (runes s))"

section \<open>Data model\<close>

text \<open>
  A Go \<open>error\<close> is modelled by what it reports: a message, or one of the two structured
  errors of \<open>encoding/json\<close> the program can meet.
\<close>

datatype error =
    Error string
  | SyntaxError
  | UnmarshalTypeError string string
  | UnsupportedValueError

definition err_msg :: "error \<Rightarrow> string" where
  "err_msg e =
     (case e of
        Error m \<Rightarrow> m
      | SyntaxError \<Rightarrow> ''invalid character''
      | UnmarshalTypeError v t \<Rightarrow> ''json: cannot unmarshal '' @ v @ '' into Go value of type '' @ t
      | UnsupportedValueError \<Rightarrow> ''json: unsupported value'')"

record 'f Document =
  ID :: string
  Content :: string
  Page :: int
  Vector :: "'f list"

record 'f VectorStore =
  Documents :: "'f Document list"
  ModelName :: string

record 'f RAGChatbot =
  vectorStore :: "'f VectorStore"
  ollamaBaseURL :: string
  embedModel :: string
  chatModel :: string
  dbPath :: string

record 'f ScoredDocument =
  Document :: "'f Document"
  Score :: 'f

text \<open>A nil slice and an empty slice are both the empty list.\<close>

definition NewRAGChatbot :: "'f RAGChatbot" where
  "NewRAGChatbot =
     \<lparr> vectorStore = \<lparr> Documents = [], ModelName = '''' \<rparr>,
       ollamaBaseURL = ''http://localhost:11434'',
       embedModel = ''nomic-embed-text'',
       chatModel = '''',
       dbPath = ''vectorstore.json'' \<rparr>"

section \<open>The world outside the program\<close>

text \<open>
  A JSON document: the tree that the text of a JSON file spells. A number keeps its
  literal; an object keeps its members in order.
\<close>

datatype json =
    JNull
  | JBool bool
  | JNumber string
  | JString string
  | JArray "json list"
  | JObject "(string \<times> json) list"

text \<open>A page of an opened PDF: a null page, or the result of \<open>GetPlainText\<close>.\<close>

datatype pdf_page = NullPage | PlainText "error + string"

text \<open>
  The answer to an HTTP request whose body is decoded as JSON: the request fails, or the
  decoding of the response fails, or a value is decoded.
\<close>

datatype 'a http_reply = RequestFailed error | DecodeFailed error | Decoded 'a

datatype request = EmbedRequest string string string | GenerateRequest string string string
  | TagsRequest string

text \<open>A path of the file system: no file, a file that cannot be read, or a file and its bytes.\<close>

datatype file_state = NoFile | Unreadable error | File string

text \<open>
  The state of the world the program acts on: the state of the Ollama service, the files,
  the paths that cannot be written (with the error \<open>os.WriteFile\<close> reports), and the HTTP
  requests made so far. Console output, logging and \<open>time.Sleep\<close> are not modelled.
\<close>

record 'w world =
  backend :: 'w
  files :: "string \<Rightarrow> file_state"
  write_error :: "string \<Rightarrow> error option"
  requests :: "request list"

text \<open>
  The libraries and services the program calls, as parameters: the arithmetic, the Ollama
  endpoints (each takes the state of the service, the URL and the request, and gives the
  reply and the next state), the PDF reader, MD5, the Unicode tables used by \<open>cleanText\<close>,
  \<open>sort.Slice\<close>, and the text layer of \<open>encoding/json\<close> (\<open>json_render\<close> writes a document as
  indented text, \<open>json_scan\<close> reads a text and gives \<open>None\<close> on a syntax error,
  \<open>json_foldName\<close> is the case folding used to match object keys with field names).
\<close>

record ('w, 'f) env =
  float64 :: "'f float64_ops"
  post_embed :: "'w \<Rightarrow> string \<Rightarrow> string \<Rightarrow> string \<Rightarrow> 'f list list http_reply \<times> 'w"
  post_generate :: "'w \<Rightarrow> string \<Rightarrow> string \<Rightarrow> string \<Rightarrow> string http_reply \<times> 'w"
  get_tags :: "'w \<Rightarrow> string \<Rightarrow> (error + int) \<times> 'w"
  pdf_Open :: "string \<Rightarrow> error + pdf_page list"
  md5_Sum :: "string \<Rightarrow> string"
  unicode_LNPZ :: "nat \<Rightarrow> bool"
  sort_Slice :: "('f ScoredDocument \<Rightarrow> 'f ScoredDocument \<Rightarrow> bool)
                   \<Rightarrow> 'f ScoredDocument list \<Rightarrow> 'f ScoredDocument list"
  json_render :: "json \<Rightarrow> string"
  json_scan :: "string \<Rightarrow> json option"
  json_foldName :: "string \<Rightarrow> string"

section \<open>The JSON encoding of the vector store\<close>

text \<open>
  What \<open>json.MarshalIndent\<close> and \<open>json.Unmarshal\<close> do with the types of the program,
  following the documentation of package \<open>encoding/json\<close> and the \<open>json\<close> tags of the
  struct declarations. The encoder writes a struct as an object with its fields in
  order, a slice as an array, a string coerced to valid UTF-8, an \<open>int\<close> in decimal, and
  fails on a floating-point number that has no JSON form.
\<close>

definition encode_float64 :: "'f float64_ops \<Rightarrow> 'f \<Rightarrow> error + json" where
  "encode_float64 F x =
     (case f_format F x of None \<Rightarrow> Inl UnsupportedValueError | Some lit \<Rightarrow> Inr (JNumber lit))"

fun encode_all :: "('a \<Rightarrow> error + json) \<Rightarrow> 'a list \<Rightarrow> error + json list" where
  "encode_all enc [] = Inr []"
| "encode_all enc (x # xs) =
     (case enc x of
        Inl e \<Rightarrow> Inl e
      | Inr j \<Rightarrow> (case encode_all enc xs of Inl e \<Rightarrow> Inl e | Inr js \<Rightarrow> Inr (j # js)))"

definition encode_Document :: "'f float64_ops \<Rightarrow> 'f Document \<Rightarrow> error + json" where
  "encode_Document F d =
     (case encode_all (encode_float64 F) (Vector d) of
        Inl e \<Rightarrow> Inl e
      | Inr js \<Rightarrow>
          Inr (JObject [(''id'', JString (ToValidUTF8 (ID d))),
                        (''content'', JString (ToValidUTF8 (Content d))),
                        (''page'', JNumber (Itoa (Page d))),
                        (''vector'', JArray js)]))"

definition encode_VectorStore :: "'f float64_ops \<Rightarrow> 'f VectorStore \<Rightarrow> error + json" where
  "encode_VectorStore F v =
     (case encode_all (encode_Document F) (Documents v) of
        Inl e \<Rightarrow> Inl e
      | Inr js \<Rightarrow>
          Inr (JObject [(''documents'', JArray js),
                        (''model_name'', JString (ToValidUTF8 (ModelName v)))]))"

text \<open>
  The decoder stores each JSON value into the Go value it is given. A value of the wrong
  kind leaves the target as it is and is recorded as an \<open>UnmarshalTypeError\<close>; decoding
  goes on, and the first error recorded is returned at the end. \<open>null\<close> leaves a string,
  a number or a struct unchanged and empties a slice. An object member is matched with the
  field of the same name, or else with a field whose folded name is the same; other
  members are skipped.
\<close>

definition saveError :: "error option \<Rightarrow> error \<Rightarrow> error option" where
  "saveError se e = (case se of None \<Rightarrow> Some e | Some e0 \<Rightarrow> Some e0)"

definition json_kind :: "json \<Rightarrow> string" where
  "json_kind j =
     (case j of JNull \<Rightarrow> ''null'' | JBool b \<Rightarrow> ''bool'' | JNumber lit \<Rightarrow> ''number''
      | JString s \<Rightarrow> ''string'' | JArray js \<Rightarrow> ''array'' | JObject kvs \<Rightarrow> ''object'')"

definition decode_string :: "json \<Rightarrow> string \<Rightarrow> error option \<Rightarrow> string \<times> error option" where
  "decode_string j v se =
     (case j of
        JString s \<Rightarrow> (s, se)
      | JNull \<Rightarrow> (v, se)
      | _ \<Rightarrow> (v, saveError se (UnmarshalTypeError (json_kind j) ''string'')))"

definition decode_int :: "json \<Rightarrow> int \<Rightarrow> error option \<Rightarrow> int \<times> error option" where
  "decode_int j v se =
     (case j of
        JNumber lit \<Rightarrow>
          (case ParseInt lit of
             Some n \<Rightarrow> (n, se)
           | None \<Rightarrow> (v, saveError se (UnmarshalTypeError (''number '' @ lit) ''int'')))
      | JNull \<Rightarrow> (v, se)
      | _ \<Rightarrow> (v, saveError se (UnmarshalTypeError (json_kind j) ''int'')))"

definition decode_float64 ::
  "'f float64_ops \<Rightarrow> json \<Rightarrow> 'f \<Rightarrow> error option \<Rightarrow> 'f \<times> error option" where
  "decode_float64 F j v se =
     (case j of
        JNumber lit \<Rightarrow>
          (case f_parse F lit of
             Some x \<Rightarrow> (x, se)
           | None \<Rightarrow> (v, saveError se (UnmarshalTypeError (''number '' @ lit) ''float64'')))
      | JNull \<Rightarrow> (v, se)
      | _ \<Rightarrow> (v, saveError se (UnmarshalTypeError (json_kind j) ''float64'')))"

text \<open>
  An array is decoded element by element into a slice: element \<open>i\<close> is decoded into the
  element the slice already has at \<open>i\<close>, or into a zero value beyond its length, and the
  slice ends with the array.
\<close>

fun decode_elems ::
  "(json \<Rightarrow> 'a \<Rightarrow> error option \<Rightarrow> 'a \<times> error option) \<Rightarrow> 'a \<Rightarrow> json list \<Rightarrow> 'a list
     \<Rightarrow> error option \<Rightarrow> 'a list \<times> error option" where
  "decode_elems dec zero [] old se = ([], se)"
| "decode_elems dec zero (j # js) old se =
     (case dec j (case old of [] \<Rightarrow> zero | x # xs \<Rightarrow> x) se of
        (y, se1) \<Rightarrow>
          (case decode_elems dec zero js (tl old) se1 of (ys, se2) \<Rightarrow> (y # ys, se2)))"

definition decode_slice ::
  "(json \<Rightarrow> 'a \<Rightarrow> error option \<Rightarrow> 'a \<times> error option) \<Rightarrow> 'a \<Rightarrow> string \<Rightarrow> json \<Rightarrow> 'a list
     \<Rightarrow> error option \<Rightarrow> 'a list \<times> error option" where
  "decode_slice dec zero ty j v se =
     (case j of
        JArray js \<Rightarrow> decode_elems dec zero js v se
      | JNull \<Rightarrow> ([], se)
      | _ \<Rightarrow> (v, saveError se (UnmarshalTypeError (json_kind j) ty)))"

definition find_field :: "(string \<Rightarrow> string) \<Rightarrow> string list \<Rightarrow> string \<Rightarrow> string option" where
  "find_field fld names key =
     (if key \<in> set names then Some key else List.find (\<lambda>n. fld n = fld key) names)"

definition zero_Document :: "'f Document" where
  "zero_Document = \<lparr> ID = '''', Content = '''', Page = 0, Vector = [] \<rparr>"

fun decode_Document_members ::
  "'f float64_ops \<Rightarrow> (string \<Rightarrow> string) \<Rightarrow> (string \<times> json) list \<Rightarrow> 'f Document
     \<Rightarrow> error option \<Rightarrow> 'f Document \<times> error option" where
  "decode_Document_members F fld [] d se = (d, se)"
| "decode_Document_members F fld ((key, j) # rest) d se =
     (case find_field fld [''id'', ''content'', ''page'', ''vector''] key of
        None \<Rightarrow> decode_Document_members F fld rest d se
      | Some name \<Rightarrow>
          if name = ''id'' then
            (case decode_string j (ID d) se of
               (x, se1) \<Rightarrow> decode_Document_members F fld rest (d\<lparr>ID := x\<rparr>) se1)
          else if name = ''content'' then
            (case decode_string j (Content d) se of
               (x, se1) \<Rightarrow> decode_Document_members F fld rest (d\<lparr>Content := x\<rparr>) se1)
          else if name = ''page'' then
            (case decode_int j (Page d) se of
               (x, se1) \<Rightarrow> decode_Document_members F fld rest (d\<lparr>Page := x\<rparr>) se1)
          else
            (case decode_slice (decode_float64 F) (f_zero F) ''[]float64'' j (Vector d) se of
               (x, se1) \<Rightarrow> decode_Document_members F fld rest (d\<lparr>Vector := x\<rparr>) se1))"

definition decode_Document ::
  "'f float64_ops \<Rightarrow> (string \<Rightarrow> string) \<Rightarrow> json \<Rightarrow> 'f Document \<Rightarrow> error option
     \<Rightarrow> 'f Document \<times> error option" where
  "decode_Document F fld j d se =
     (case j of
        JObject kvs \<Rightarrow> decode_Document_members F fld kvs d se
      | JNull \<Rightarrow> (d, se)
      | _ \<Rightarrow> (d, saveError se (UnmarshalTypeError (json_kind j) ''main.Document'')))"

fun decode_VectorStore_members ::
  "'f float64_ops \<Rightarrow> (string \<Rightarrow> string) \<Rightarrow> (string \<times> json) list \<Rightarrow> 'f VectorStore
     \<Rightarrow> error option \<Rightarrow> 'f VectorStore \<times> error option" where
  "decode_VectorStore_members F fld [] v se = (v, se)"
| "decode_VectorStore_members F fld ((key, j) # rest) v se =
     (case find_field fld [''documents'', ''model_name''] key of
        None \<Rightarrow> decode_VectorStore_members F fld rest v se
      | Some name \<Rightarrow>
          if name = ''documents'' then
            (case decode_slice (decode_Document F fld) zero_Document ''[]main.Document'' j
                    (Documents v) se of
               (x, se1) \<Rightarrow> decode_VectorStore_members F fld rest (v\<lparr>Documents := x\<rparr>) se1)
          else
            (case decode_string j (ModelName v) se of
               (x, se1) \<Rightarrow> decode_VectorStore_members F fld rest (v\<lparr>ModelName := x\<rparr>) se1))"

definition decode_VectorStore ::
  "'f float64_ops \<Rightarrow> (string \<Rightarrow> string) \<Rightarrow> json \<Rightarrow> 'f VectorStore \<Rightarrow> error option
     \<Rightarrow> 'f VectorStore \<times> error option" where
  "decode_VectorStore F fld j v se =
     (case j of
        JObject kvs \<Rightarrow> decode_VectorStore_members F fld kvs v se
      | JNull \<Rightarrow> (v, se)
      | _ \<Rightarrow> (v, saveError se (UnmarshalTypeError (json_kind j) ''main.VectorStore'')))"

text \<open>
  \<open>json.MarshalIndent(v, "", "  ")\<close> and \<open>json.Unmarshal(data, v)\<close> for a vector store. A
  text that is not valid JSON is rejected before anything is stored; otherwise the
  result is the store as decoding left it, with the first error recorded, if any.
\<close>

definition json_MarshalIndent :: "('w, 'f) env \<Rightarrow> 'f VectorStore \<Rightarrow> error + string" where
  "json_MarshalIndent E v =
     (case encode_VectorStore (float64 E) v of Inl e \<Rightarrow> Inl e | Inr j \<Rightarrow> Inr (json_render E j))"

definition json_Unmarshal ::
  "('w, 'f) env \<Rightarrow> string \<Rightarrow> 'f VectorStore \<Rightarrow> error option \<times> 'f VectorStore" where
  "json_Unmarshal E data v =
     (case json_scan E data of
        None \<Rightarrow> (Some SyntaxError, v)
      | Some j \<Rightarrow>
          (case decode_VectorStore (float64 E) (json_foldName E) j v None of
             (v', se) \<Rightarrow> (se, v')))"

section \<open>The operations of the chatbot\<close>

subsection \<open>Embedding requests\<close>

definition GetEmbedding ::
  "('w, 'f) env \<Rightarrow> 'f RAGChatbot \<Rightarrow> 'w world \<Rightarrow> string \<Rightarrow> (error + 'f list) \<times> 'w world" where
  "GetEmbedding E r w text =
     (let url = ollamaBaseURL r @ ''/api/embed'';
          (reply, b) = post_embed E (backend w) url (embedModel r) text;
          w' = w\<lparr>backend := b, requests := requests w @ [EmbedRequest url (embedModel r) text]\<rparr>
      in case reply of
           RequestFailed err \<Rightarrow> (Inl (Error (''errore chiamata Ollama embed: '' @ err_msg err)), w')
         | DecodeFailed err \<Rightarrow> (Inl err, w')
         | Decoded embeddings \<Rightarrow>
             if length embeddings = 0 then (Inl (Error ''nessun embedding ricevuto''), w')
             else (Inr (embeddings ! 0), w'))"

subsection \<open>Persistence\<close>

text \<open>\<open>os.WriteFile\<close>: the file holds the data afterwards; a write that fails is taken to
  leave the files as they were.\<close>

definition os_WriteFile :: "'w world \<Rightarrow> string \<Rightarrow> string \<Rightarrow> error option \<times> 'w world" where
  "os_WriteFile w path data =
     (case write_error w path of
        Some err \<Rightarrow> (Some err, w)
      | None \<Rightarrow> (None, w\<lparr>files := (files w)(path := File data)\<rparr>))"

definition SaveVectorStore ::
  "('w, 'f) env \<Rightarrow> 'f RAGChatbot \<Rightarrow> 'w world \<Rightarrow> error option \<times> 'w world" where
  "SaveVectorStore E r w =
     (case json_MarshalIndent E (vectorStore r) of
        Inl err \<Rightarrow> (Some err, w)
      | Inr data \<Rightarrow> os_WriteFile w (dbPath r) data)"

definition LoadVectorStore ::
  "('w, 'f) env \<Rightarrow> 'f RAGChatbot \<Rightarrow> 'w world \<Rightarrow> error option \<times> 'f RAGChatbot" where
  "LoadVectorStore E r w =
     (case files w (dbPath r) of
        NoFile \<Rightarrow> (Some (Error ''database non esistente''), r)
      | Unreadable err \<Rightarrow> (Some err, r)
      | File data \<Rightarrow>
          (case json_Unmarshal E data (vectorStore r) of
             (err, v) \<Rightarrow> (err, r\<lparr>vectorStore := v\<rparr>)))"

subsection \<open>Ingestion\<close>

fun extract_pages :: "(nat \<Rightarrow> bool) \<Rightarrow> pdf_page list \<Rightarrow> string list" where
  "extract_pages lnpz [] = []"
| "extract_pages lnpz (NullPage # rest) = extract_pages lnpz rest"
| "extract_pages lnpz (PlainText (Inl err) # rest) = extract_pages lnpz rest"
| "extract_pages lnpz (PlainText (Inr content) # rest) =
     (let cleanContent = cleanText lnpz content
      in if length cleanContent > 50 then cleanContent # extract_pages lnpz rest
         else extract_pages lnpz rest)"

definition ExtractTextFromPDF :: "('w, 'f) env \<Rightarrow> string \<Rightarrow> error + string list" where
  "ExtractTextFromPDF E filename =
     (case pdf_Open E filename of
        Inl err \<Rightarrow> Inl (Error (''errore apertura PDF: '' @ err_msg err))
      | Inr pages \<Rightarrow> Inr (extract_pages (unicode_LNPZ E) pages))"

definition append_Document :: "'f RAGChatbot \<Rightarrow> 'f Document \<Rightarrow> 'f RAGChatbot" where
  "append_Document r doc =
     r\<lparr>vectorStore := (vectorStore r)\<lparr>Documents := Documents (vectorStore r) @ [doc]\<rparr>\<rparr>"

text \<open>The inner loop of \<open>ProcessPDF\<close>, over the chunks of one page with their indices.\<close>

fun ProcessPDF_chunks ::
  "('w, 'f) env \<Rightarrow> 'f RAGChatbot \<Rightarrow> 'w world \<Rightarrow> nat \<Rightarrow> (nat \<times> string) list
     \<Rightarrow> 'f RAGChatbot \<times> 'w world" where
  "ProcessPDF_chunks E r w pageNum [] = (r, w)"
| "ProcessPDF_chunks E r w pageNum ((chunkIdx, chunk) # rest) =
     (if length (TrimSpace chunk) < 20 then ProcessPDF_chunks E r w pageNum rest
      else
        (let docID = ''page_'' @ Itoa (int pageNum + 1) @ ''_chunk_'' @ Itoa (int chunkIdx)
                       @ ''_'' @ hex_bytes (take 4 (md5_Sum E chunk))
         in case GetEmbedding E r w chunk of
              (Inl err, w') \<Rightarrow> ProcessPDF_chunks E r w' pageNum rest
            | (Inr vector, w') \<Rightarrow>
                ProcessPDF_chunks E
                  (append_Document r
                     \<lparr> ID = docID, Content = chunk, Page = int pageNum + 1, Vector = vector \<rparr>)
                  w' pageNum rest))"

text \<open>The outer loop of \<open>ProcessPDF\<close>, over the pages with their indices.\<close>

fun ProcessPDF_pages ::
  "('w, 'f) env \<Rightarrow> 'f RAGChatbot \<Rightarrow> 'w world \<Rightarrow> (nat \<times> string) list
     \<Rightarrow> (go_panic + 'f RAGChatbot \<times> 'w world) option" where
  "ProcessPDF_pages E r w [] = Some (Inr (r, w))"
| "ProcessPDF_pages E r w ((pageNum, pageText) # rest) =
     (case ChunkText pageText 300 50 of
        None \<Rightarrow> None
      | Some (Inl p) \<Rightarrow> Some (Inl p)
      | Some (Inr chunks) \<Rightarrow>
          (case ProcessPDF_chunks E r w pageNum (enumerate 0 chunks) of
             (r', w') \<Rightarrow> ProcessPDF_pages E r' w' rest))"

definition ProcessPDF ::
  "('w, 'f) env \<Rightarrow> 'f RAGChatbot \<Rightarrow> 'w world \<Rightarrow> string
     \<Rightarrow> (go_panic + error option \<times> 'f RAGChatbot \<times> 'w world) option" where
  "ProcessPDF E r w filename =
     (case ExtractTextFromPDF E filename of
        Inl err \<Rightarrow> Some (Inr (Some err, r, w))
      | Inr pages \<Rightarrow>
          (let r0 = r\<lparr>vectorStore := (vectorStore r)\<lparr>Documents := []\<rparr>\<rparr>
           in case ProcessPDF_pages E r0 w (enumerate 0 pages) of
                None \<Rightarrow> None
              | Some (Inl p) \<Rightarrow> Some (Inl p)
              | Some (Inr (r1, w1)) \<Rightarrow>
                  (let r2 = r1\<lparr>vectorStore := (vectorStore r1)\<lparr>ModelName := embedModel r1\<rparr>\<rparr>
                   in case SaveVectorStore E r2 w1 of (err, w2) \<Rightarrow> Some (Inr (err, r2, w2)))))"

definition os_ReadFile :: "'w world \<Rightarrow> string \<Rightarrow> error + string" where
  "os_ReadFile w path =
     (case files w path of
        NoFile \<Rightarrow> Inl (Error (''open '' @ path @ '': no such file or directory''))
      | Unreadable err \<Rightarrow> Inl err
      | File data \<Rightarrow> Inr data)"

fun ProcessTXT_chunks ::
  "('w, 'f) env \<Rightarrow> 'f RAGChatbot \<Rightarrow> 'w world \<Rightarrow> (nat \<times> string) list
     \<Rightarrow> 'f RAGChatbot \<times> 'w world" where
  "ProcessTXT_chunks E r w [] = (r, w)"
| "ProcessTXT_chunks E r w ((chunkIdx, chunk) # rest) =
     (if length (TrimSpace chunk) < 20 then ProcessTXT_chunks E r w rest
      else
        (let docID = ''txt_chunk_'' @ Itoa (int chunkIdx) @ ''_''
                       @ hex_bytes (take 4 (md5_Sum E chunk))
         in case GetEmbedding E r w chunk of
              (Inl err, w') \<Rightarrow> ProcessTXT_chunks E r w' rest
            | (Inr vector, w') \<Rightarrow>
                ProcessTXT_chunks E
                  (append_Document r \<lparr> ID = docID, Content = chunk, Page = 1, Vector = vector \<rparr>)
                  w' rest))"

definition ProcessTXT ::
  "('w, 'f) env \<Rightarrow> 'f RAGChatbot \<Rightarrow> 'w world \<Rightarrow> string
     \<Rightarrow> (go_panic + error option \<times> 'f RAGChatbot \<times> 'w world) option" where
  "ProcessTXT E r w filename =
     (case os_ReadFile w filename of
        Inl err \<Rightarrow> Some (Inr (Some (Error (''errore lettura file TXT: '' @ err_msg err)), r, w))
      | Inr text \<Rightarrow>
          (let cleanedText = cleanText (unicode_LNPZ E) text
           in if length (TrimSpace cleanedText) < 50
              then Some (Inr (Some (Error ''file TXT troppo corto o vuoto''), r, w))
              else
                (let r0 = r\<lparr>vectorStore := (vectorStore r)\<lparr>Documents := []\<rparr>\<rparr>
                 in case ChunkText cleanedText 300 50 of
                      None \<Rightarrow> None
                    | Some (Inl p) \<Rightarrow> Some (Inl p)
                    | Some (Inr chunks) \<Rightarrow>
                        (case ProcessTXT_chunks E r0 w (enumerate 0 chunks) of
                           (r1, w1) \<Rightarrow>
                             (let r2 = r1\<lparr>vectorStore :=
                                           (vectorStore r1)\<lparr>ModelName := embedModel r1\<rparr>\<rparr>
                              in case SaveVectorStore E r2 w1 of
                                   (err, w2) \<Rightarrow> Some (Inr (err, r2, w2)))))))"

subsection \<open>Retrieval and answering\<close>

fun score_Documents ::
  "'f float64_ops \<Rightarrow> 'f list \<Rightarrow> 'f Document list \<Rightarrow> go_panic + 'f ScoredDocument list" where
  "score_Documents F queryVector [] = Inr []"
| "score_Documents F queryVector (doc # docs) =
     (case cosineSimilarity F queryVector (Vector doc) of
        Inl p \<Rightarrow> Inl p
      | Inr similarity \<Rightarrow>
          (case score_Documents F queryVector docs of
             Inl p \<Rightarrow> Inl p
           | Inr scoredDocs \<Rightarrow> Inr (\<lparr> Document = doc, Score = similarity \<rparr> # scoredDocs)))"

definition SearchSimilar ::
  "('w, 'f) env \<Rightarrow> 'f RAGChatbot \<Rightarrow> 'w world \<Rightarrow> string \<Rightarrow> int
     \<Rightarrow> go_panic + (error + 'f Document list) \<times> 'w world" where
  "SearchSimilar E r w query topK =
     (case GetEmbedding E r w query of
        (Inl err, w') \<Rightarrow> Inr (Inl err, w')
      | (Inr queryVector, w') \<Rightarrow>
          (case score_Documents (float64 E) queryVector (Documents (vectorStore r)) of
             Inl p \<Rightarrow> Inl p
           | Inr scoredDocs0 \<Rightarrow>
               (let scoredDocs =
                      sort_Slice E (\<lambda>x y. f_gt (float64 E) (Score x) (Score y)) scoredDocs0;
                    topK' = (if topK > int (length scoredDocs) then int (length scoredDocs)
                             else topK)
                in Inr (Inr (map Document (take (nat topK') scoredDocs)), w'))))"

definition context_section :: "nat \<times> 'f Document \<Rightarrow> string" where
  "context_section p =
     ''Sezione '' @ Itoa (int (fst p) + 1) @ '' (Pagina '' @ Itoa (Page (snd p)) @ ''):\<newline>''
       @ Content (snd p) @ ''\<newline>\<newline>''"

definition build_prompt :: "string \<Rightarrow> 'f Document list \<Rightarrow> string" where
  "build_prompt question context =
     ''Sei un assistente che risponde a domande basandoti esclusivamente sul documento fornito.\<newline>\<newline>''
     @ (''Contesto dal documento:\<newline>\<newline>'' @ concat (map context_section (enumerate 0 context)))
     @ ''\<newline>\<newline>Domanda: '' @ question
     @ ''\<newline>\<newline>Istruzioni:\<newline>- Rispondi SOLO in italiano\<newline>''
     @ ''- Usa ESCLUSIVAMENTE le informazioni del contesto fornito\<newline>''
     @ ''- Se la risposta non '' @ [CHR 0xC3, CHR 0xA8] @ '' presente nel documento, dillo chiaramente\<newline>''
     @ ''- Sii preciso e dettagliato\<newline>- Cita la pagina quando possibile\<newline>\<newline>Risposta:''"

text \<open>
  \<open>GenerateResponse\<close>. The request carries the chat model, the prompt and fixed sampling
  parameters; only the model and the prompt are recorded.
\<close>

definition GenerateResponse ::
  "('w, 'f) env \<Rightarrow> 'f RAGChatbot \<Rightarrow> 'w world \<Rightarrow> string \<Rightarrow> 'f Document list
     \<Rightarrow> (error + string) \<times> 'w world" where
  "GenerateResponse E r w question context =
     (let prompt = build_prompt question context;
          url = ollamaBaseURL r @ ''/api/generate'';
          (reply, b) = post_generate E (backend w) url (chatModel r) prompt;
          w' = w\<lparr>backend := b,
                 requests := requests w @ [GenerateRequest url (chatModel r) prompt]\<rparr>
      in case reply of
           RequestFailed err \<Rightarrow> (Inl (Error (''errore chiamata Ollama: '' @ err_msg err)), w')
         | DecodeFailed err \<Rightarrow> (Inl err, w')
         | Decoded response \<Rightarrow> (Inr response, w'))"

text \<open>\<open>Chat\<close> returns the answer, the documents used and the error, as the source does.\<close>

definition Chat ::
  "('w, 'f) env \<Rightarrow> 'f RAGChatbot \<Rightarrow> 'w world \<Rightarrow> string
     \<Rightarrow> go_panic + (string \<times> 'f Document list \<times> error option) \<times> 'w world" where
  "Chat E r w question =
     (if length (Documents (vectorStore r)) = 0
      then Inr ((''Per favore, carica prima un documento PDF.'', [], None), w)
      else case SearchSimilar E r w question 4 of
             Inl p \<Rightarrow> Inl p
           | Inr (Inl err, w1) \<Rightarrow> Inr (('''', [], Some err), w1)
           | Inr (Inr similarDocs, w1) \<Rightarrow>
               (case GenerateResponse E r w1 question similarDocs of
                  (Inl err, w2) \<Rightarrow> Inr (('''', [], Some err), w2)
                | (Inr answer, w2) \<Rightarrow> Inr ((answer, similarDocs, None), w2)))"

subsection \<open>Start of the program\<close>

definition CheckOllamaAvailable ::
  "('w, 'f) env \<Rightarrow> 'f RAGChatbot \<Rightarrow> 'w world \<Rightarrow> error option \<times> 'w world" where
  "CheckOllamaAvailable E r w =
     (let url = ollamaBaseURL r @ ''/api/tags'';
          (reply, b) = get_tags E (backend w) url;
          w' = w\<lparr>backend := b, requests := requests w @ [TagsRequest url]\<rparr>
      in case reply of
           Inl err \<Rightarrow>
             (Some (Error (''Ollama non disponibile su '' @ ollamaBaseURL r @ '': '' @ err_msg err)), w')
         | Inr status \<Rightarrow>
             if status \<noteq> 200 then (Some (Error (''Ollama risponde con status: '' @ Itoa status)), w')
             else (None, w'))"

text \<open>
  The start of \<open>main\<close>, up to the menu loop: \<open>log.Fatal\<close> ends the program; otherwise the
  loop starts with the chatbot as \<open>LoadVectorStore\<close> left it, whether it failed or not.
\<close>

datatype 'f startup = Fatal error | MenuLoop "'f RAGChatbot"

definition main_start :: "('w, 'f) env \<Rightarrow> 'w world \<Rightarrow> 'f startup \<times> 'w world" where
  "main_start E w =
     (let chatbot = NewRAGChatbot
      in case CheckOllamaAvailable E chatbot w of
           (Some err, w1) \<Rightarrow> (Fatal err, w1)
         | (None, w1) \<Rightarrow>
             (case LoadVectorStore E chatbot w1 of (err, chatbot') \<Rightarrow> (MenuLoop chatbot', w1)))"

subsection \<open>Notions used to state when ingestion fails\<close>

text \<open>The texts of the pages of an opened PDF that could be extracted.\<close>

fun page_contents :: "pdf_page list \<Rightarrow> string list" where
  "page_contents [] = []"
| "page_contents (NullPage # rest) = page_contents rest"
| "page_contents (PlainText (Inl err) # rest) = page_contents rest"
| "page_contents (PlainText (Inr content) # rest) = content # page_contents rest"

text \<open>A vector store that \<open>encoding/json\<close> cannot write: one of its numbers has no JSON form.\<close>

definition unsupported_float :: "'f float64_ops \<Rightarrow> 'f VectorStore \<Rightarrow> bool" where
  "unsupported_float F v = (\<exists>d\<in>set (Documents v). \<exists>x\<in>set (Vector d). f_format F x = None)"

text \<open>What the loops over the chunks keep of the chatbot and of the world: everything but
  the documents, the state of the service and the log of requests.\<close>

definition same_config :: "'f RAGChatbot \<Rightarrow> 'f RAGChatbot \<Rightarrow> bool" where
  "same_config r r' = (ollamaBaseURL r' = ollamaBaseURL r \<and> embedModel r' = embedModel r
      \<and> chatModel r' = chatModel r \<and> dbPath r' = dbPath r)"

definition same_files :: "'w world \<Rightarrow> 'w world \<Rightarrow> bool" where
  "same_files w w' = (files w' = files w \<and> write_error w' = write_error w)"

subsection \<open>Vector stores that JSON can carry\<close>

text \<open>
  The strings of the store are valid UTF-8; the page numbers are values of the type \<open>int\<close>;
  and for every number of a vector, the literal \<open>strconv\<close> writes for it is read back as
  the same number.
\<close>

definition utf8_store :: "'f VectorStore \<Rightarrow> bool" where
  "utf8_store v =
     (ValidString (ModelName v)
      \<and> (\<forall>d\<in>set (Documents v). ValidString (ID d) \<and> ValidString (Content d)))"

definition int_pages :: "'f VectorStore \<Rightarrow> bool" where
  "int_pages v = (\<forall>d\<in>set (Documents v). - (2 ^ 63) \<le> Page d \<and> Page d < 2 ^ 63)"

definition literals_read_back :: "'f float64_ops \<Rightarrow> 'f VectorStore \<Rightarrow> bool" where
  "literals_read_back F v =
     (\<forall>d\<in>set (Documents v). \<forall>x\<in>set (Vector d). \<forall>lit.
        f_format F x = Some lit \<longrightarrow> f_parse F lit = Some x)"

section \<open>What the program relies on in its libraries\<close>

text \<open>
  \<open>sort.Slice\<close> rearranges the slice; when \<open>less\<close> is a strict weak ordering of its elements
  (irreflexive, transitive, and with a transitive "neither is less"), no element is
  less than one placed before it. The order of equal elements is not fixed.
\<close>

definition strict_weak_order :: "('a \<Rightarrow> 'a \<Rightarrow> bool) \<Rightarrow> 'a set \<Rightarrow> bool" where
  "strict_weak_order lt A =
     ((\<forall>x\<in>A. \<not> lt x x)
      \<and> (\<forall>x\<in>A. \<forall>y\<in>A. \<forall>z\<in>A. lt x y \<and> lt y z \<longrightarrow> lt x z)
      \<and> (\<forall>x\<in>A. \<forall>y\<in>A. \<forall>z\<in>A. \<not> lt x y \<and> \<not> lt y z \<longrightarrow> \<not> lt x z))"

definition sort_Slice_contract :: "(('a \<Rightarrow> 'a \<Rightarrow> bool) \<Rightarrow> 'a list \<Rightarrow> 'a list) \<Rightarrow> bool" where
  "sort_Slice_contract srt =
     (\<forall>lt xs. mset (srt lt xs) = mset xs
        \<and> (strict_weak_order lt (set xs) \<longrightarrow> sorted_wrt (\<lambda>x y. \<not> lt y x) (srt lt xs)))"

text \<open>The scores \<open>SearchSimilar\<close> gives the stored documents for a query vector.\<close>

definition scores :: "'f float64_ops \<Rightarrow> 'f list \<Rightarrow> 'f Document list \<Rightarrow> 'f set" where
  "scores F queryVector docs = (\<lambda>d. cos_sim F queryVector (Vector d)) ` set docs"

definition scored :: "'f float64_ops \<Rightarrow> 'f list \<Rightarrow> 'f Document list \<Rightarrow> 'f ScoredDocument list" where
  "scored F queryVector docs =
     map (\<lambda>d. \<lparr> Document = d, Score = cos_sim F queryVector (Vector d) \<rparr>) docs"

section \<open>Instances of the parameters\<close>

text \<open>
  Concrete libraries and services, to run the definitions on: an insertion sort for
  \<open>sort.Slice\<close>, the real numbers with the integers as their only literals, the ASCII part
  of the Unicode tables, a JSON text layer given by a table of documents and their texts,
  and services that answer by fixed functions.
\<close>

fun insert_by :: "('a \<Rightarrow> 'a \<Rightarrow> bool) \<Rightarrow> 'a \<Rightarrow> 'a list \<Rightarrow> 'a list" where
  "insert_by lt x [] = [x]"
| "insert_by lt x (y # ys) = (if lt y x then y # insert_by lt x ys else x # y # ys)"

fun insertion_sort :: "('a \<Rightarrow> 'a \<Rightarrow> bool) \<Rightarrow> 'a list \<Rightarrow> 'a list" where
  "insertion_sort lt [] = []"
| "insertion_sort lt (x # xs) = insert_by lt x (insertion_sort lt xs)"

definition real_lit_ops :: "real float64_ops" where
  "real_lit_ops =
     real_ops \<lparr> f_format := (\<lambda>x. if of_int \<lfloor>x\<rfloor> = x then Some (Itoa \<lfloor>x\<rfloor>) else None),
                f_parse := (\<lambda>s. map_option of_int (ParseInt s)) \<rparr>"

definition ascii_LNPZ :: "nat \<Rightarrow> bool" where
  "ascii_LNPZ r =
     (r = 0x20 \<or> (0x30 \<le> r \<and> r \<le> 0x39) \<or> (0x41 \<le> r \<and> r \<le> 0x5A) \<or> (0x61 \<le> r \<and> r \<le> 0x7A)
      \<or> r \<in> {0x21, 0x22, 0x23, 0x25, 0x26, 0x27, 0x28, 0x29, 0x2A, 0x2C, 0x2D, 0x2E, 0x2F,
              0x3A, 0x3B, 0x3F, 0x40, 0x5B, 0x5C, 0x5D, 0x5F, 0x7B, 0x7D})"

definition table_render :: "(json \<times> string) list \<Rightarrow> json \<Rightarrow> string" where
  "table_render tab j = (case map_of tab j of None \<Rightarrow> [] | Some t \<Rightarrow> t)"

definition table_scan :: "(json \<times> string) list \<Rightarrow> string \<Rightarrow> json option" where
  "table_scan tab t = map_of (map (\<lambda>p. (snd p, fst p)) tab) t"

definition test_env ::
  "(string \<Rightarrow> real list list http_reply) \<Rightarrow> (string \<Rightarrow> error + pdf_page list)
     \<Rightarrow> (json \<times> string) list \<Rightarrow> (unit, real) env" where
  "test_env emb pdf tab =
     \<lparr> float64 = real_lit_ops,
       post_embed = (\<lambda>b url model text. (emb text, b)),
       post_generate = (\<lambda>b url model prompt. (Decoded ''risposta'', b)),
       get_tags = (\<lambda>b url. (Inr 200, b)),
       pdf_Open = pdf,
       md5_Sum = (\<lambda>s. replicate 16 (CHR 0x00)),
       unicode_LNPZ = ascii_LNPZ,
       sort_Slice = insertion_sort,
       json_render = table_render tab,
       json_scan = table_scan tab,
       json_foldName = (\<lambda>s. s) \<rparr>"

definition test_world :: "(string \<Rightarrow> file_state) \<Rightarrow> (string \<Rightarrow> error option) \<Rightarrow> unit world" where
  "test_world fs we = \<lparr> backend = (), files = fs, write_error = we, requests = [] \<rparr>"

text \<open>
  An arithmetic with the special values of IEEE 754: a finite number, the two infinities,
  or NaN. A finite result beyond the greatest \<open>float64\<close> becomes an infinity; rounding
  and the sign of zero are left out. Every comparison with NaN is false.
\<close>

datatype f64 = Finite real | PosInf | NegInf | NaN

definition MaxFloat64 :: real where
  "MaxFloat64 = (2 - 1 / 2 ^ 52) * 2 ^ 1023"

definition overflow :: "real \<Rightarrow> f64" where
  "overflow x = (if MaxFloat64 < x then PosInf else if x < - MaxFloat64 then NegInf else Finite x)"

definition infinity :: "bool \<Rightarrow> f64" where
  "infinity negative = (if negative then NegInf else PosInf)"

fun f64_negative :: "f64 \<Rightarrow> bool" where
  "f64_negative (Finite x) = (x < 0)"
| "f64_negative NegInf = True"
| "f64_negative PosInf = False"
| "f64_negative NaN = False"

fun f64_add :: "f64 \<Rightarrow> f64 \<Rightarrow> f64" where
  "f64_add NaN y = NaN"
| "f64_add x NaN = NaN"
| "f64_add (Finite x) (Finite y) = overflow (x + y)"
| "f64_add (Finite x) y = y"
| "f64_add x (Finite y) = x"
| "f64_add PosInf PosInf = PosInf"
| "f64_add NegInf NegInf = NegInf"
| "f64_add PosInf NegInf = NaN"
| "f64_add NegInf PosInf = NaN"

fun f64_mul :: "f64 \<Rightarrow> f64 \<Rightarrow> f64" where
  "f64_mul NaN y = NaN"
| "f64_mul x NaN = NaN"
| "f64_mul (Finite x) (Finite y) = overflow (x * y)"
| "f64_mul (Finite x) y = (if x = 0 then NaN else infinity ((x < 0) \<noteq> f64_negative y))"
| "f64_mul x (Finite y) = (if y = 0 then NaN else infinity (f64_negative x \<noteq> (y < 0)))"
| "f64_mul x y = infinity (f64_negative x \<noteq> f64_negative y)"

fun f64_div :: "f64 \<Rightarrow> f64 \<Rightarrow> f64" where
  "f64_div NaN y = NaN"
| "f64_div x NaN = NaN"
| "f64_div (Finite x) (Finite y) =
     (if y = 0 then (if x = 0 then NaN else infinity (x < 0)) else overflow (x / y))"
| "f64_div (Finite x) y = Finite 0"
| "f64_div x (Finite y) = infinity (f64_negative x \<noteq> (y < 0))"
| "f64_div x y = NaN"

fun f64_sqrt :: "f64 \<Rightarrow> f64" where
  "f64_sqrt (Finite x) = (if x < 0 then NaN else Finite (sqrt x))"
| "f64_sqrt PosInf = PosInf"
| "f64_sqrt NegInf = NaN"
| "f64_sqrt NaN = NaN"

fun f64_eq :: "f64 \<Rightarrow> f64 \<Rightarrow> bool" where
  "f64_eq (Finite x) (Finite y) = (x = y)"
| "f64_eq PosInf PosInf = True"
| "f64_eq NegInf NegInf = True"
| "f64_eq x y = False"

fun f64_gt :: "f64 \<Rightarrow> f64 \<Rightarrow> bool" where
  "f64_gt (Finite x) (Finite y) = (y < x)"
| "f64_gt PosInf (Finite y) = True"
| "f64_gt PosInf NegInf = True"
| "f64_gt (Finite x) NegInf = True"
| "f64_gt x y = False"

definition f64_ops :: "f64 float64_ops" where
  "f64_ops = \<lparr> f_zero = Finite 0, f_add = f64_add, f_mul = f64_mul, f_div = f64_div,
               f_sqrt = f64_sqrt, f_eq = f64_eq, f_gt = f64_gt,
               f_format = (\<lambda>x. None), f_parse = (\<lambda>s. None) \<rparr>"

text \<open>An index of three documents whose middle one has a very large vector, a chatbot
  that holds it, and an environment whose embedding service answers with a large vector.\<close>

definition doc_minus :: "f64 Document" where
  "doc_minus = \<lparr> ID = ''page_1_chunk_0_00000000'', Content = ''contrario'', Page = 1,
                 Vector = [Finite (- 1)] \<rparr>"

definition doc_huge :: "f64 Document" where
  "doc_huge = \<lparr> ID = ''page_1_chunk_1_00000000'', Content = ''enorme'', Page = 1,
                Vector = [Finite (10 ^ 200)] \<rparr>"

definition doc_plus :: "f64 Document" where
  "doc_plus = \<lparr> ID = ''page_2_chunk_0_00000000'', Content = ''concorde'', Page = 2,
                Vector = [Finite 1] \<rparr>"

definition bot_huge :: "f64 RAGChatbot" where
  "bot_huge =
     NewRAGChatbot \<lparr> vectorStore := \<lparr> Documents = [doc_minus, doc_huge, doc_plus],
                                        ModelName = ''nomic-embed-text'' \<rparr> \<rparr>"

definition query_huge :: "f64 list" where
  "query_huge = [Finite (10 ^ 150)]"

definition env_huge :: "(unit, f64) env" where
  "env_huge =
     \<lparr> float64 = f64_ops,
       post_embed = (\<lambda>b url model text. (Decoded [query_huge], b)),
       post_generate = (\<lambda>b url model prompt. (Decoded ''risposta'', b)),
       get_tags = (\<lambda>b url. (Inr 200, b)),
       pdf_Open = (\<lambda>f. Inr []),
       md5_Sum = (\<lambda>s. replicate 16 (CHR 0x00)),
       unicode_LNPZ = ascii_LNPZ,
       sort_Slice = insertion_sort,
       json_render = table_render [],
       json_scan = table_scan [],
       json_foldName = (\<lambda>s. s) \<rparr>"

text \<open>An index of five documents with two-dimensional vectors, and worlds to run it in.\<close>

definition doc_a :: "real Document" where
  "doc_a = \<lparr> ID = ''page_1_chunk_0_00000000'', Content = ''primo'', Page = 1, Vector = [0, 1] \<rparr>"

definition doc_b :: "real Document" where
  "doc_b = \<lparr> ID = ''page_1_chunk_1_00000000'', Content = ''secondo'', Page = 1, Vector = [1, 0] \<rparr>"

definition doc_c :: "real Document" where
  "doc_c = \<lparr> ID = ''page_2_chunk_0_00000000'', Content = ''terzo'', Page = 2, Vector = [3, 4] \<rparr>"

definition doc_d :: "real Document" where
  "doc_d = \<lparr> ID = ''page_2_chunk_1_00000000'', Content = ''quarto'', Page = 2, Vector = [4, 3] \<rparr>"

definition doc_e :: "real Document" where
  "doc_e = \<lparr> ID = ''page_3_chunk_0_00000000'', Content = ''quinto'', Page = 3, Vector = [0, 2] \<rparr>"

definition bot_five :: "real RAGChatbot" where
  "bot_five =
     NewRAGChatbot \<lparr> vectorStore := \<lparr> Documents = [doc_a, doc_b, doc_c, doc_d, doc_e],
                                        ModelName = ''nomic-embed-text'' \<rparr> \<rparr>"

definition env_unit_x :: "(unit, real) env" where
  "env_unit_x = test_env (\<lambda>t. Decoded [[1, 0]]) (\<lambda>f. Inr []) []"

definition env_no_pdf :: "(unit, real) env" where
  "env_no_pdf = test_env (\<lambda>t. Decoded [[1, 0]]) (\<lambda>f. Inl (Error ''file does not exist'')) []"

definition world_empty :: "unit world" where
  "world_empty = test_world (\<lambda>p. NoFile) (\<lambda>p. None)"

text \<open>A note of 57 bytes, the vector store that its ingestion builds, and the JSON text of
  that store.\<close>

definition nota :: string where
  "nota = ''Il gatto dorme sul divano mentre fuori piove piano piano.''"

definition doc_nota :: "real Document" where
  "doc_nota = \<lparr> ID = ''txt_chunk_0_00000000'', Content = nota, Page = 1, Vector = [1, 0] \<rparr>"

definition store_nota :: "real VectorStore" where
  "store_nota = \<lparr> Documents = [doc_nota], ModelName = ''nomic-embed-text'' \<rparr>"

definition json_nota :: json where
  "json_nota =
     JObject [(''documents'',
               JArray [JObject [(''id'', JString ''txt_chunk_0_00000000''),
                                (''content'', JString nota),
                                (''page'', JNumber ''1''),
                                (''vector'', JArray [JNumber ''1'', JNumber ''0''])]]),
              (''model_name'', JString ''nomic-embed-text'')]"

definition text_nota :: string where
  \<open>text_nota =
     ''{\<newline>  "documents": [\<newline>    {\<newline>      "id": "txt_chunk_0_00000000",\<newline>''
     @ ''      "content": "'' @ nota @ ''",\<newline>      "page": 1,\<newline>''
     @ ''      "vector": [\<newline>        1,\<newline>        0\<newline>      ]\<newline>    }\<newline>  ],\<newline>''
     @ ''  "model_name": "nomic-embed-text"\<newline>}''\<close>

text \<open>The store without documents and its JSON text.\<close>

definition json_no_documents :: json where
  "json_no_documents =
     JObject [(''documents'', JArray []), (''model_name'', JString ''nomic-embed-text'')]"

definition text_no_documents :: string where
  \<open>text_no_documents = ''{\<newline>  "documents": [],\<newline>  "model_name": "nomic-embed-text"\<newline>}''\<close>

definition json_table :: "(json \<times> string) list" where
  "json_table = [(json_nota, text_nota), (json_no_documents, text_no_documents)]"

text \<open>Environments: the embedding service answers, or is down; a PDF of three pages of which
  one has text, and a PDF whose only page is short.\<close>

definition env_ok :: "(unit, real) env" where
  "env_ok = test_env (\<lambda>t. Decoded [[1, 0]]) (\<lambda>f. Inr [PlainText (Inr ''Pagina quasi vuota.'')])
              json_table"

definition env_embed_down :: "(unit, real) env" where
  "env_embed_down =
     test_env (\<lambda>t. RequestFailed (Error ''connection refused''))
       (\<lambda>f. Inr [NullPage, PlainText (Inr nota), PlainText (Inl (Error ''malformed page''))])
       json_table"

definition world_nota :: "(string \<Rightarrow> error option) \<Rightarrow> unit world" where
  "world_nota we = test_world (\<lambda>p. if p = ''appunti.txt'' then File nota else NoFile) we"

definition world_nota_ok :: "unit world" where
  "world_nota_ok = world_nota (\<lambda>p. None)"

definition world_nota_full :: "unit world" where
  "world_nota_full = world_nota (\<lambda>p. Some (Error ''no space left on device''))"

text \<open>A store file that is valid JSON with a number where the model name should be, an
  environment that reads it, and a world that holds it.\<close>

definition json_bad :: json where
  "json_bad =
     JObject [(''documents'',
               JArray [JObject [(''id'', JString ''a''), (''content'', JString ''x''),
                                (''page'', JNumber ''1''), (''vector'', JArray [JNumber ''1''])]]),
              (''model_name'', JNumber ''5'')]"

definition text_bad :: string where
  \<open>text_bad = ''{"documents":[{"id":"a","content":"x","page":1,"vector":[1]}],"model_name":5}''\<close>

definition env_bad :: "(unit, real) env" where
  "env_bad = test_env (\<lambda>t. Decoded [[1, 0]]) (\<lambda>f. Inr []) [(json_bad, text_bad)]"

definition world_bad :: "unit world" where
  "world_bad =
     test_world (\<lambda>p. if p = ''vectorstore.json'' then File text_bad else NoFile) (\<lambda>p. None)"

definition bot_bad :: "real RAGChatbot" where
  "bot_bad =
     NewRAGChatbot
       \<lparr> vectorStore :=
           \<lparr> Documents = [\<lparr> ID = ''a'', Content = ''x'', Page = 1, Vector = [1] \<rparr>],
             ModelName = '''' \<rparr> \<rparr>"

text \<open>A chatbot whose model name is the single byte 0xFF, which is not valid UTF-8, the
  JSON document and text that \<open>encoding/json\<close> writes for its store, and an environment
  that knows this text.\<close>

definition bot_ff :: "real RAGChatbot" where
  "bot_ff = NewRAGChatbot \<lparr> vectorStore := \<lparr> Documents = [], ModelName = [CHR 0xFF] \<rparr> \<rparr>"

definition json_ff :: json where
  "json_ff =
     JObject [(''documents'', JArray []), (''model_name'', JString [CHR 0xEF, CHR 0xBF, CHR 0xBD])]"

definition text_ff :: string where
  \<open>text_ff = ''{\<newline>  "documents": [],\<newline>  "model_name": "'' @ [CHR 0x5C] @ ''ufffd"\<newline>}''\<close>

definition env_ff :: "(unit, real) env" where
  "env_ff = test_env (\<lambda>t. Decoded [[1, 0]]) (\<lambda>f. Inr []) [(json_ff, text_ff)]"

definition bot_nota :: "real RAGChatbot" where
  "bot_nota = NewRAGChatbot \<lparr> vectorStore := store_nota \<rparr>"

section \<open>Properties of the string helpers\<close>

lemma DecodeRune_width:
  "s \<noteq> [] \<Longrightarrow> 1 \<le> snd (DecodeRuneInString s) \<and> snd (DecodeRuneInString s) \<le> length s"
proof -
  assume "s \<noteq> []"
  then have n: "1 \<le> length s" by (cases s) auto
  have "snd (DecodeRuneInString s) = 1
      \<or> (snd (DecodeRuneInString s) = first_size (byte_at s 0)
          \<and> first_size (byte_at s 0) \<le> length s)"
    using n \<open>s \<noteq> []\<close> by (auto simp: DecodeRuneInString_def Let_def first_size_def)
  moreover have "1 \<le> first_size (byte_at s 0)"
    by (simp add: first_size_def)
  ultimately show ?thesis using n by auto
qed

lemma runes_nonempty: "(r, bs) \<in> set (runes s) \<Longrightarrow> bs \<noteq> []"
proof (induction s rule: runes.induct)
  case 1
  then show ?case by simp
next
  case (2 c cs)
  have "1 \<le> snd (DecodeRuneInString (c # cs))"
    using DecodeRune_width [of "c # cs"] by simp
  then have "take (snd (DecodeRuneInString (c # cs))) (c # cs) \<noteq> []"
    by (cases "snd (DecodeRuneInString (c # cs))") auto
  with 2 show ?case by auto
qed

lemma runes_concat: "concat (map snd (runes s)) = s"
proof (induction s rule: runes.induct)
  case 1
  then show ?case by simp
next
  case (2 c cs)
  obtain k where k: "snd (DecodeRuneInString (c # cs)) = Suc k"
    using DecodeRune_width [of "c # cs"] by (cases "snd (DecodeRuneInString (c # cs))") auto
  with 2 show ?case by simp
qed

lemma spans_length:
  "(\<forall>p \<in> set rs. snd p \<noteq> []) \<Longrightarrow>
   2 * length (spans f cur rs)
     \<le> length (concat (map snd rs)) + (case cur of None \<Rightarrow> 1 | Some w \<Rightarrow> 2)"
proof (induction rs arbitrary: cur)
  case Nil
  then show ?case by (simp split: option.splits)
next
  case (Cons p rs)
  obtain r bs where p: "p = (r, bs)" by (cases p)
  from Cons.prems p have bs: "1 \<le> length bs" by (cases bs) auto
  from Cons.prems have rest: "\<forall>p \<in> set rs. snd p \<noteq> []" by simp
  show ?case
  proof (cases "f r")
    case True
    from Cons.IH [OF rest, of None] True p bs show ?thesis
      by (simp split: option.splits)
  next
    case False
    from Cons.IH [OF rest, of "Some (case cur of None \<Rightarrow> bs | Some w \<Rightarrow> w @ bs)"] False p bs
    show ?thesis by (simp split: option.splits)
  qed
qed

lemma Fields_length: "2 * length (Fields s) \<le> length s + 1"
proof -
  have "\<forall>p \<in> set (runes s). snd p \<noteq> []"
    using runes_nonempty by auto
  from spans_length [OF this, of IsSpace None] show ?thesis
    by (simp add: Fields_def FieldsFunc_def runes_concat)
qed

section \<open>Properties of the chunker\<close>

lemma chunk_count_bounds:
  assumes "0 \<le> overlap" "overlap < chunkSize" "chunkSize < int w"
  defines "m \<equiv> chunk_count w chunkSize overlap - 1"
  shows "int w - chunkSize \<le> int m * (chunkSize - overlap)"
    and "0 < m" and "(int m - 1) * (chunkSize - overlap) < int w - chunkSize"
proof -
  define st where "st = chunkSize - overlap"
  define d where "d = int w - chunkSize"
  define c where "c = \<lceil>real_of_int d / real_of_int st\<rceil>"
  have st: "0 < real_of_int st" and d: "0 < real_of_int d"
    using assms by (simp_all add: st_def d_def)
  have cpos: "0 < c" unfolding c_def using st d by simp
  have "chunk_count w chunkSize overlap = nat c + 1"
    by (simp add: chunk_count_def c_def d_def st_def)
  then have m: "int m = c" using cpos by (simp add: m_def)
  have "real_of_int d \<le> real_of_int c * real_of_int st"
    unfolding c_def using st by (rule ceiling_divide_upper)
  then have "real_of_int d \<le> real_of_int (c * st)" by simp
  then have "d \<le> c * st" by (simp only: of_int_le_iff)
  then show "int w - chunkSize \<le> int m * (chunkSize - overlap)"
    by (simp add: m d_def st_def)
  show "0 < m" using m cpos by simp
  have "(real_of_int c - 1) * real_of_int st < real_of_int d"
    unfolding c_def using st by (rule ceiling_divide_lower)
  then have "real_of_int ((c - 1) * st) < real_of_int d" by simp
  then have "(c - 1) * st < d" by (simp only: of_int_less_iff)
  then show "(int m - 1) * (chunkSize - overlap) < int w - chunkSize"
    by (simp add: m d_def st_def)
qed

lemma int_add_exact: "- (2 ^ 63) \<le> a + b \<Longrightarrow> a + b < 2 ^ 63 \<Longrightarrow> int_add a b = a + b"
  by (simp add: int_add_def signed_take_bit_int_eq_self)

lemma int_sub_exact: "- (2 ^ 63) \<le> a - b \<Longrightarrow> a - b < 2 ^ 63 \<Longrightarrow> int_sub a b = a - b"
  by (simp add: int_sub_def signed_take_bit_int_eq_self)

lemma ChunkText_loop_last:
  assumes "0 \<le> i" "i < int (length words)" "int (length words) \<le> i + chunkSize"
    and "i + chunkSize < 2 ^ 63"
  shows "ChunkText_loop words chunkSize overlap i acc
           = Some (Inr (acc @ [Join (drop (nat i) words) '' '']))"
proof -
  have e: "int_add i chunkSize = i + chunkSize"
    using assms by (intro int_add_exact) auto
  have s: "slice words i (int (length words)) = Inr (drop (nat i) words)"
    using assms by (simp add: slice_def)
  have e1: "(if int_add i chunkSize > int (length words) then int (length words)
             else int_add i chunkSize) = int (length words)"
    using assms by (simp add: e)
  show ?thesis
    by (subst ChunkText_loop.simps) (simp only: Let_def e1 s assms(2) if_True sum.case refl)
qed

lemma ChunkText_loop_next:
  assumes "0 \<le> i" "0 \<le> overlap" "overlap < chunkSize" "i + chunkSize < int (length words)"
    and "int (length words) < 2 ^ 63"
  shows "ChunkText_loop words chunkSize overlap i acc
           = ChunkText_loop words chunkSize overlap (i + (chunkSize - overlap))
               (acc @ [Join (take (nat chunkSize) (drop (nat i) words)) '' ''])"
proof -
  have e: "int_add i chunkSize = i + chunkSize"
    using assms by (intro int_add_exact) auto
  have d: "int_sub chunkSize overlap = chunkSize - overlap"
    using assms by (intro int_sub_exact) auto
  have n: "int_add i (chunkSize - overlap) = i + (chunkSize - overlap)"
    using assms by (intro int_add_exact) auto
  have "nat (i + chunkSize) - nat i = nat chunkSize"
    using assms by linarith
  then have s: "slice words i (i + chunkSize)
                  = Inr (take (nat chunkSize) (drop (nat i) words))"
    using assms by (simp add: slice_def)
  show ?thesis
    using assms by (subst ChunkText_loop.simps) (simp add: e d n s Let_def)
qed

lemma ChunkText_loop_windows:
  assumes "0 \<le> overlap" "overlap < chunkSize" "chunkSize < int (length words)"
    and "2 * int (length words) \<le> 2 ^ 63"
    and "j \<le> chunk_count (length words) chunkSize overlap - 1"
  shows "ChunkText_loop words chunkSize overlap (int j * (chunkSize - overlap)) acc
           = Some (Inr (acc @ map (\<lambda>k. Join (window words chunkSize overlap k) '' '')
                                [j..<chunk_count (length words) chunkSize overlap]))"
  using assms(5)
proof (induction "chunk_count (length words) chunkSize overlap - 1 - j" arbitrary: j acc)
  case 0
  define m where "m = chunk_count (length words) chunkSize overlap - 1"
  define st where "st = chunkSize - overlap"
  note b = chunk_count_bounds [OF assms(1-3), folded m_def st_def]
  have jm: "j = m" using 0 by (simp add: m_def)
  have cnt: "chunk_count (length words) chunkSize overlap = Suc m"
    by (simp add: m_def chunk_count_def)
  have st: "0 < st" using assms by (simp add: st_def)
  have "int m * st = (int m - 1) * st + st" by (simp add: algebra_simps)
  with b(3) have up: "int m * st < int (length words) - overlap"
    by (simp add: st_def)
  have i0: "0 \<le> int m * st" using st by simp
  have nat_i: "nat (int m * st) = m * nat st"
    using st by (simp add: nat_mult_distrib)
  have "int (m * nat st) = int m * st" using st by simp
  with b(1) have "length words \<le> m * nat st + nat chunkSize" by linarith
  then have w: "window words chunkSize overlap m = drop (m * nat st) words"
    by (simp add: window_def Let_def st_def [symmetric] min_def)
  have "ChunkText_loop words chunkSize overlap (int m * st) acc
          = Some (Inr (acc @ [Join (drop (nat (int m * st)) words) '' '']))"
    using b(1) up assms i0 by (intro ChunkText_loop_last) (auto simp: st_def)
  then show ?case
    by (simp add: jm cnt w nat_i st_def [symmetric])
next
  case (Suc n)
  define m where "m = chunk_count (length words) chunkSize overlap - 1"
  define st where "st = chunkSize - overlap"
  note b = chunk_count_bounds [OF assms(1-3), folded m_def st_def]
  have jm: "j < m" using Suc(2) by (simp add: m_def)
  have cnt: "chunk_count (length words) chunkSize overlap = Suc m"
    by (simp add: m_def chunk_count_def)
  have st: "0 < st" using assms by (simp add: st_def)
  have "int j * st \<le> (int m - 1) * st"
    using jm st by (intro mult_right_mono) auto
  with b(3) have full: "int j * st + chunkSize < int (length words)" by simp
  have i0: "0 \<le> int j * st" using st by simp
  have nat_i: "nat (int j * st) = j * nat st"
    using st by (simp add: nat_mult_distrib)
  have "int (j * nat st) = int j * st" using st by simp
  with full assms have "j * nat st + nat chunkSize \<le> length words" by linarith
  then have w: "window words chunkSize overlap j = take (nat chunkSize) (drop (j * nat st) words)"
    by (simp add: window_def Let_def st_def [symmetric] min_def)
  let ?f = "\<lambda>k. Join (window words chunkSize overlap k) '' ''"
  let ?C = "chunk_count (length words) chunkSize overlap"
  have nxt: "int j * st + (chunkSize - overlap) = int (Suc j) * (chunkSize - overlap)"
    by (simp add: st_def algebra_simps)
  have "ChunkText_loop words chunkSize overlap (int j * st) acc
          = ChunkText_loop words chunkSize overlap (int j * st + (chunkSize - overlap))
               (acc @ [Join (take (nat chunkSize) (drop (nat (int j * st)) words)) '' ''])"
    using assms i0 full by (intro ChunkText_loop_next) auto
  then have step: "ChunkText_loop words chunkSize overlap (int j * (chunkSize - overlap)) acc
          = ChunkText_loop words chunkSize overlap (int (Suc j) * (chunkSize - overlap))
               (acc @ [?f j])"
    by (simp only: nxt w nat_i) (simp only: st_def)
  have ih: "ChunkText_loop words chunkSize overlap (int (Suc j) * (chunkSize - overlap))
              (acc @ [?f j])
            = Some (Inr ((acc @ [?f j]) @ map ?f [Suc j..<?C]))"
    using Suc(1) [of "Suc j"] Suc(2) jm by (simp add: m_def)
  have "j < ?C" using jm cnt by simp
  then have l: "[j..<?C] = j # [Suc j..<?C]" by (rule upt_conv_Cons)
  have "acc @ map ?f [j..<?C] = (acc @ [?f j]) @ map ?f [Suc j..<?C]"
    by (subst l) simp
  with step ih show ?case by (simp only:)
qed

lemma window_cover:
  fixes w st sz n :: nat
  assumes st: "0 < st" "st \<le> sz"
    and last: "(n - 1) * st < w" "w \<le> (n - 1) * st + sz" and n: "0 < n"
  shows "(\<Union>j<n. {j * st ..< min (j * st + sz) w}) = {..<w}"
proof (intro equalityI subsetI)
  fix p assume "p \<in> (\<Union>j<n. {j * st ..< min (j * st + sz) w})"
  then show "p \<in> {..<w}" by auto
next
  fix p assume "p \<in> {..<w}"
  then have p: "p < w" by simp
  define j where "j = min (p div st) (n - 1)"
  have jn: "j < n" using n by (simp add: j_def)
  have lo: "j * st \<le> p"
  proof -
    have "j * st \<le> (p div st) * st" by (simp add: j_def)
    also have "\<dots> \<le> p" by simp
    finally show ?thesis .
  qed
  have hi: "p < j * st + sz"
  proof (cases "p div st \<le> n - 1")
    case True
    then have "j = p div st" by (simp add: j_def)
    moreover have "p < (p div st) * st + st"
      using st(1) by (metis add.commute dividend_less_div_times mult.commute)
    ultimately show ?thesis using st(2) by simp
  next
    case False
    then have "j = n - 1" by (simp add: j_def)
    then show ?thesis using last p by simp
  qed
  from lo hi p jn show "p \<in> (\<Union>j<n. {j * st ..< min (j * st + sz) w})"
    by auto
qed

text \<open>
  Claim C1. For a text with more words than \<open>chunkSize\<close>, and \<open>chunkSize > overlap \<ge> 0\<close>,
  \<open>ChunkText\<close> returns \<open>\<lceil>(w - chunkSize) / (chunkSize - overlap)\<rceil> + 1\<close> chunks, chunk \<open>j\<close>
  being the words at positions \<open>j * (chunkSize - overlap)\<close> up to
  \<open>min (j * (chunkSize - overlap) + chunkSize) w\<close>, joined by single spaces. Every window but
  the last holds \<open>chunkSize\<close> words and ends before the last word, so that two consecutive
  windows share \<open>overlap\<close> positions; the last window ends at the last word; the windows
  cover every word position. A non-empty text of at most \<open>chunkSize\<close> words is returned
  whole, as the only chunk.
\<close>

theorem ChunkText_windows:
  "(go_string text \<and> 0 \<le> overlap \<and> overlap < chunkSize
      \<and> chunkSize < int (length (Fields text)) \<longrightarrow>
      (let words = Fields text; w = length words; st = nat (chunkSize - overlap);
           n = chunk_count w chunkSize overlap
       in ChunkText text chunkSize overlap
            = Some (Inr (map (\<lambda>j. Join (window words chunkSize overlap j) '' '') [0..<n]))
          \<and> (\<forall>j. Suc j < n \<longrightarrow> j * st + nat chunkSize < w)
          \<and> (n - 1) * st < w \<and> w \<le> (n - 1) * st + nat chunkSize
          \<and> (\<Union>j<n. {j * st ..< min (j * st + nat chunkSize) w}) = {..<w}))
   \<and> (text \<noteq> [] \<and> int (length (Fields text)) \<le> chunkSize \<longrightarrow>
        ChunkText text chunkSize overlap = Some (Inr [text]))"
proof (intro conjI impI)
  assume "text \<noteq> [] \<and> int (length (Fields text)) \<le> chunkSize"
  then show "ChunkText text chunkSize overlap = Some (Inr [text])"
    by (simp add: ChunkText_def)
next
  assume a: "go_string text \<and> 0 \<le> overlap \<and> overlap < chunkSize
      \<and> chunkSize < int (length (Fields text))"
  define words where "words = Fields text"
  define w where "w = length words"
  define st where "st = nat (chunkSize - overlap)"
  define n where "n = chunk_count w chunkSize overlap"
  from a have ov: "0 \<le> overlap" "overlap < chunkSize" and big: "chunkSize < int w"
    by (simp_all add: w_def words_def)
  have "2 * w \<le> length text + 1" unfolding w_def words_def by (rule Fields_length)
  moreover have "int (length text) < 2 ^ 63" using a by (simp add: go_string_def)
  ultimately have len: "2 * int (length words) \<le> 2 ^ 63" unfolding w_def by linarith
  note b = chunk_count_bounds [OF ov big, folded n_def]
  have ist: "int st = chunkSize - overlap" using ov by (simp add: st_def)
  have npos: "0 < n" by (simp add: n_def chunk_count_def)
  have run: "ChunkText text chunkSize overlap
          = Some (Inr (map (\<lambda>j. Join (window words chunkSize overlap j) '' '') [0..<n]))"
    using ChunkText_loop_windows [OF ov big [unfolded w_def] len, of 0 "[]"] big
    by (simp add: ChunkText_def Let_def words_def [symmetric] w_def [symmetric] n_def)
  have full: "\<forall>j. Suc j < n \<longrightarrow> j * st + nat chunkSize < w"
  proof (intro allI impI)
    fix j assume "Suc j < n"
    then have "int j \<le> int (n - 1) - 1" by linarith
    then have "int j * (chunkSize - overlap) \<le> (int (n - 1) - 1) * (chunkSize - overlap)"
      using ov by (intro mult_right_mono) auto
    with b(3) have "int j * int st + chunkSize < int w" by (simp add: ist)
    then have "int (j * st + nat chunkSize) < int w" using ov by simp
    then show "j * st + nat chunkSize < w" by (simp only: of_nat_less_iff)
  qed
  have "int (n - 1) * int st = (int (n - 1) - 1) * int st + int st"
    by (simp add: algebra_simps)
  with b(3) have "int ((n - 1) * st) < int w" using ov by (simp add: ist)
  then have l1: "(n - 1) * st < w" by (simp only: of_nat_less_iff)
  from b(1) have "int w \<le> int ((n - 1) * st + nat chunkSize)" using ov by (simp add: ist)
  then have l2: "w \<le> (n - 1) * st + nat chunkSize" by (simp only: of_nat_le_iff)
  have "0 < st" "st \<le> nat chunkSize" using ov by (simp_all add: st_def)
  from window_cover [OF this l1 l2 npos]
  have cov: "(\<Union>j<n. {j * st ..< min (j * st + nat chunkSize) w}) = {..<w}" .
  from run full l1 l2 cov
  show "let words = Fields text; w = length words; st = nat (chunkSize - overlap);
           n = chunk_count w chunkSize overlap
       in ChunkText text chunkSize overlap
            = Some (Inr (map (\<lambda>j. Join (window words chunkSize overlap j) '' '') [0..<n]))
          \<and> (\<forall>j. Suc j < n \<longrightarrow> j * st + nat chunkSize < w)
          \<and> (n - 1) * st < w \<and> w \<le> (n - 1) * st + nat chunkSize
          \<and> (\<Union>j<n. {j * st ..< min (j * st + nat chunkSize) w}) = {..<w}"
    unfolding Let_def words_def [symmetric] w_def [symmetric] st_def [symmetric]
      n_def [symmetric] by blast
qed

theorem ChunkText_windows_witness:
  "ChunkText ''a b c d e f g'' 3 1 = Some (Inr [''a b c'', ''c d e'', ''e f g''])
   \<and> ChunkText ''a b'' 3 1 = Some (Inr [''a b''])"
proof -
  have F: "Fields ''a b c d e f g'' = [''a'', ''b'', ''c'', ''d'', ''e'', ''f'', ''g'']"
    by code_simp
  have G: "Fields ''a b'' = [''a'', ''b'']"
    by code_simp
  have c: "chunk_count (length (Fields ''a b c d e f g'')) 3 1 = 3"
    by (simp add: F chunk_count_def)
  have m: "map (\<lambda>j. Join (window (Fields ''a b c d e f g'') 3 1 j) '' '') [0..<3]
             = [''a b c'', ''c d e'', ''e f g'']"
    by code_simp
  have h: "go_string ''a b c d e f g'' \<and> (0::int) \<le> 1 \<and> (1::int) < 3
             \<and> 3 < int (length (Fields ''a b c d e f g''))"
    by (simp add: F go_string_def)
  from ChunkText_windows [of "''a b c d e f g''" 1 3] h
  have "ChunkText ''a b c d e f g'' 3 1
          = Some (Inr (map (\<lambda>j. Join (window (Fields ''a b c d e f g'') 3 1 j) '' '')
               [0..<chunk_count (length (Fields ''a b c d e f g'')) 3 1]))"
    unfolding Let_def by blast
  then have "ChunkText ''a b c d e f g'' 3 1 = Some (Inr [''a b c'', ''c d e'', ''e f g''])"
    by (simp only: c m)
  moreover from ChunkText_windows [of "''a b''" 1 3]
  have "ChunkText ''a b'' 3 1 = Some (Inr [''a b''])"
    by (simp add: G)
  ultimately show ?thesis by simp
qed

text \<open>
  Claim C9, as amended. On the empty string \<open>ChunkText\<close> returns one chunk, the empty
  string, for every chunk size that is not negative; it returns no chunk only for a
  negative chunk size.
\<close>

theorem ChunkText_empty:
  "ChunkText '''' chunkSize overlap
     = (if 0 \<le> chunkSize then Some (Inr ['''']) else Some (Inr []))"
  by (simp add: ChunkText_def Fields_def FieldsFunc_def ChunkText_loop.simps)

theorem ChunkText_empty_witness:
  "ChunkText '''' 1 0 = Some (Inr [''''])"
  using ChunkText_empty [of 1 0] by simp

text \<open>
  Claim C9 as stated fails: with the parameters the ingestion uses, the empty string
  yields one (empty) chunk, not an empty sequence.
\<close>

theorem ChunkText_empty_counterexample:
  "ChunkText '''' 300 50 \<noteq> Some (Inr [])"
  by (simp add: ChunkText_def Fields_def FieldsFunc_def)

section \<open>Properties of the similarity scorer\<close>

lemma cosine_loop_eq:
  "length a = length b \<Longrightarrow> i \<le> length a \<Longrightarrow>
   cosine_loop F a b i (d, na, nb)
     = Inr (foldl (\<lambda>s (x, y). f_add F s (f_mul F x y)) d (zip (drop i a) (drop i b)),
            foldl (\<lambda>s x. f_add F s (f_mul F x x)) na (drop i a),
            foldl (\<lambda>s x. f_add F s (f_mul F x x)) nb (drop i b))"
proof (induction "length a - i" arbitrary: i d na nb)
  case 0
  then show ?case by simp
next
  case (Suc n)
  then have i: "i < length a" "i < length b" by simp_all
  have da: "drop i a = a ! i # drop (Suc i) a" and db: "drop i b = b ! i # drop (Suc i) b"
    using i by (simp_all add: Cons_nth_drop_Suc)
  have "n = length a - Suc i" using Suc(2) by simp
  from Suc(1) [OF this Suc(3)] i show ?case
    by (simp add: da db)
qed

lemma cosineSimilarity_cos_sim: "cosineSimilarity F a b = Inr (cos_sim F a b)"
proof (cases "length a = length b")
  case False
  then show ?thesis by (simp add: cosineSimilarity_def cos_sim_def)
next
  case True
  from cosine_loop_eq [OF True, of 0 F "f_zero F" "f_zero F" "f_zero F"] True
  show ?thesis
    by (simp add: cosineSimilarity_def cos_sim_def dot_def norm2_def Let_def)
qed

text \<open>
  Claim C3. For every pair of vectors \<open>cosineSimilarity\<close> returns a number and never panics:
  it returns 0 when the lengths differ or when the norm of either vector, as the program
  computes it, compares equal to 0, and otherwise the dot product divided by the product of
  the two norms.
\<close>

theorem cosineSimilarity_spec:
  "cosineSimilarity F a b
     = Inr (if length a \<noteq> length b \<or> f_eq F (norm2 F a) (f_zero F)
                \<or> f_eq F (norm2 F b) (f_zero F)
            then f_zero F
            else f_div F (dot F a b) (f_mul F (norm2 F a) (norm2 F b)))"
  by (simp add: cosineSimilarity_cos_sim cos_sim_def)

theorem cosineSimilarity_spec_witness:
  "cosineSimilarity real_ops [3, 4] [4, 3] = Inr (24 / 25)
   \<and> cosineSimilarity real_ops [1] [1, 2] = Inr 0
   \<and> cosineSimilarity real_ops [0, 0] [1, 2] = Inr 0"
proof -
  have s: "sqrt 25 = 5" by (rule real_sqrt_unique) simp_all
  have "cosineSimilarity real_ops [3, 4] [4, 3] = Inr (24 / 25)"
    using cosineSimilarity_spec [of real_ops "[3, 4]" "[4, 3]"]
    by (simp add: real_ops_def dot_def norm2_def s)
  moreover have "cosineSimilarity real_ops [1] [1, 2] = Inr 0"
    using cosineSimilarity_spec [of real_ops "[1]" "[1, 2]"]
    by (simp add: real_ops_def)
  moreover have "cosineSimilarity real_ops [0, 0] [1, 2] = Inr 0"
    using cosineSimilarity_spec [of real_ops "[0, 0]" "[1, 2]"]
    by (simp add: real_ops_def dot_def norm2_def)
  ultimately show ?thesis by simp
qed

section \<open>Strict weak orderings and the insertion sort\<close>

lemma swo_irrefl: "strict_weak_order lt A \<Longrightarrow> a \<in> A \<Longrightarrow> \<not> lt a a"
  by (simp add: strict_weak_order_def)

lemma swo_trans:
  assumes "strict_weak_order lt A" "a \<in> A" "b \<in> A" "c \<in> A" "lt a b" "lt b c"
  shows "lt a c"
proof -
  note d = assms(1) [unfolded strict_weak_order_def, THEN conjunct2, THEN conjunct1, rule_format]
  from assms(5,6) have "lt a b \<and> lt b c" by (rule conjI)
  with assms(2-4) show ?thesis by (rule d)
qed

lemma swo_negtrans:
  assumes "strict_weak_order lt A" "a \<in> A" "b \<in> A" "c \<in> A" "\<not> lt a b" "\<not> lt b c"
  shows "\<not> lt a c"
proof -
  note d = assms(1) [unfolded strict_weak_order_def, THEN conjunct2, THEN conjunct2, rule_format]
  from assms(5,6) have "\<not> lt a b \<and> \<not> lt b c" by (rule conjI)
  with assms(2-4) show ?thesis by (rule d)
qed

lemma swo_subset:
  assumes "strict_weak_order lt A" "B \<subseteq> A"
  shows "strict_weak_order lt B"
  unfolding strict_weak_order_def
proof (intro conjI ballI impI)
  fix x assume "x \<in> B"
  with assms show "\<not> lt x x" by (meson swo_irrefl subsetD)
next
  fix x y z assume "x \<in> B" "y \<in> B" "z \<in> B" "lt x y \<and> lt y z"
  with assms(2) have "x \<in> A" "y \<in> A" "z \<in> A" "lt x y" "lt y z" by (simp_all add: subsetD)
  then show "lt x z" by (rule swo_trans [OF assms(1)])
next
  fix x y z assume "x \<in> B" "y \<in> B" "z \<in> B" "\<not> lt x y \<and> \<not> lt y z"
  with assms(2) have "x \<in> A" "y \<in> A" "z \<in> A" "\<not> lt x y" "\<not> lt y z" by (simp_all add: subsetD)
  then show "\<not> lt x z" by (rule swo_negtrans [OF assms(1)])
qed

lemma mset_insert_by: "mset (insert_by lt x xs) = add_mset x (mset xs)"
  by (induction xs) simp_all

lemma mset_insertion_sort: "mset (insertion_sort lt xs) = mset xs"
  by (induction xs) (simp_all add: mset_insert_by)

lemma set_insert_by: "set (insert_by lt x xs) = insert x (set xs)"
  by (induction xs) auto

lemma set_insertion_sort: "set (insertion_sort lt xs) = set xs"
  by (induction xs) (simp_all add: set_insert_by)

lemma sorted_insert_by:
  assumes o: "strict_weak_order lt A" and x: "x \<in> A" and xs: "set xs \<subseteq> A"
    and s: "sorted_wrt (\<lambda>a b. \<not> lt b a) xs"
  shows "sorted_wrt (\<lambda>a b. \<not> lt b a) (insert_by lt x xs)"
  using xs s
proof (induction xs)
  case Nil
  then show ?case by simp
next
  case (Cons y ys)
  from Cons.prems have y: "y \<in> A" and ys: "set ys \<subseteq> A"
    and sy: "\<forall>z\<in>set ys. \<not> lt z y" and sys: "sorted_wrt (\<lambda>a b. \<not> lt b a) ys"
    by simp_all
  show ?case
  proof (cases "lt y x")
    case True
    have "\<not> lt x y"
    proof
      assume "lt x y"
      with True have "lt y y" by (rule swo_trans [OF o y x y])
      with swo_irrefl [OF o y] show False ..
    qed
    with True sy Cons.IH [OF ys sys] show ?thesis
      by (simp add: set_insert_by)
  next
    case False
    have "\<forall>z\<in>set ys. \<not> lt z x"
    proof
      fix z assume z: "z \<in> set ys"
      then have zA: "z \<in> A" using ys by (rule subsetD [rotated])
      from sy z have "\<not> lt z y" by (rule bspec)
      then show "\<not> lt z x" using False by (rule swo_negtrans [OF o zA y x])
    qed
    with False sy sys show ?thesis by simp
  qed
qed

lemma sorted_insertion_sort:
  "strict_weak_order lt (set xs) \<Longrightarrow> sorted_wrt (\<lambda>a b. \<not> lt b a) (insertion_sort lt xs)"
proof (induction xs)
  case Nil
  then show ?case by simp
next
  case (Cons x xs)
  have sub: "strict_weak_order lt (set xs)"
    using Cons.prems by (rule swo_subset) auto
  have "sorted_wrt (\<lambda>a b. \<not> lt b a) (insert_by lt x (insertion_sort lt xs))"
    using Cons.prems
  proof (rule sorted_insert_by)
    show "x \<in> set (x # xs)" by simp
    show "set (insertion_sort lt xs) \<subseteq> set (x # xs)" by (auto simp: set_insertion_sort)
    show "sorted_wrt (\<lambda>a b. \<not> lt b a) (insertion_sort lt xs)" by (rule Cons.IH [OF sub])
  qed
  then show ?case by simp
qed

lemma insertion_sort_contract: "sort_Slice_contract insertion_sort"
  unfolding sort_Slice_contract_def
  by (intro allI conjI impI mset_insertion_sort sorted_insertion_sort)

lemma real_gt_strict_weak_order: "strict_weak_order (\<lambda>x y. y < x) (A :: real set)"
  unfolding strict_weak_order_def by (intro conjI ballI impI) auto

section \<open>Properties of retrieval\<close>

lemma score_Documents_eq:
  "score_Documents F qv docs
     = Inr (map (\<lambda>d. \<lparr> Document = d, Score = cos_sim F qv (Vector d) \<rparr>) docs)"
  by (induction docs) (simp_all add: cosineSimilarity_cos_sim)

lemma SearchSimilar_embedded:
  assumes "GetEmbedding E r w query = (Inr qv, w')"
  shows "SearchSimilar E r w query topK
     = Inr (Inr (map Document
           (take (nat topK)
              (sort_Slice E (\<lambda>x y. f_gt (float64 E) (Score x) (Score y))
                 (scored (float64 E) qv (Documents (vectorStore r)))))), w')"
proof -
  let ?s = "sort_Slice E (\<lambda>x y. f_gt (float64 E) (Score x) (Score y))
                 (scored (float64 E) qv (Documents (vectorStore r)))"
  have "take (nat (if topK > int (length ?s) then int (length ?s) else topK)) ?s
          = take (nat topK) ?s"
    by simp
  then show ?thesis
    using assms by (simp add: SearchSimilar_def score_Documents_eq scored_def Let_def)
qed

lemma SearchSimilar_embed_failed:
  "GetEmbedding E r w query = (Inl err, w') \<Longrightarrow>
   SearchSimilar E r w query topK = Inr (Inl err, w')"
  by (simp add: SearchSimilar_def)

lemma strict_weak_order_scored:
  assumes "strict_weak_order lt (scores F qv docs)"
  shows "strict_weak_order (\<lambda>x y. lt (Score x) (Score y)) (set (scored F qv docs))"
proof -
  have "\<And>x. x \<in> set (scored F qv docs) \<Longrightarrow> Score x \<in> scores F qv docs"
    by (auto simp: scored_def scores_def)
  note m = this
  let ?S = "scores F qv docs"
  from assms have a: "\<And>x. x \<in> ?S \<Longrightarrow> \<not> lt x x"
    unfolding strict_weak_order_def by blast
  from assms have b: "\<And>x y z. x \<in> ?S \<Longrightarrow> y \<in> ?S \<Longrightarrow> z \<in> ?S \<Longrightarrow> lt x y \<Longrightarrow> lt y z \<Longrightarrow> lt x z"
    unfolding strict_weak_order_def by blast
  from assms have c: "\<And>x y z. x \<in> ?S \<Longrightarrow> y \<in> ?S \<Longrightarrow> z \<in> ?S \<Longrightarrow> \<not> lt x y \<Longrightarrow> \<not> lt y z \<Longrightarrow> \<not> lt x z"
    unfolding strict_weak_order_def by blast
  show ?thesis
    unfolding strict_weak_order_def
  proof (intro conjI ballI impI)
    fix x assume "x \<in> set (scored F qv docs)"
    then show "\<not> lt (Score x) (Score x)" using a m by simp
  next
    fix x y z
    assume "x \<in> set (scored F qv docs)" "y \<in> set (scored F qv docs)"
      "z \<in> set (scored F qv docs)" "lt (Score x) (Score y) \<and> lt (Score y) (Score z)"
    then show "lt (Score x) (Score z)" using b [of "Score x" "Score y" "Score z"] m by simp
  next
    fix x y z
    assume "x \<in> set (scored F qv docs)" "y \<in> set (scored F qv docs)"
      "z \<in> set (scored F qv docs)" "\<not> lt (Score x) (Score y) \<and> \<not> lt (Score y) (Score z)"
    then show "\<not> lt (Score x) (Score z)" using c [of "Score x" "Score y" "Score z"] m by simp
  qed
qed

text \<open>
  Claim C2, as amended. When the query has been embedded, \<open>SearchSimilar\<close> returns
  \<open>min topK (number of stored documents)\<close> documents, so at most \<open>topK\<close> of them, and when
  \<open>topK\<close> is at least the number of stored documents the result holds all of them. When
  \<open>>\<close> is a strict weak ordering of the scores that occur (no score is a NaN), no document
  of the result has a greater cosine similarity to the query vector than a document
  before it. \<open>sort.Slice\<close> is taken by its contract.
\<close>

theorem SearchSimilar_ranked:
  assumes srt: "sort_Slice_contract (sort_Slice E)"
    and emb: "GetEmbedding E r w query = (Inr qv, w')"
  shows "\<exists>results. SearchSimilar E r w query topK = Inr (Inr results, w')
           \<and> length results = min (nat topK) (length (Documents (vectorStore r)))
           \<and> (0 \<le> topK \<longrightarrow> int (length results) \<le> topK)
           \<and> (strict_weak_order (f_gt (float64 E))
                  (scores (float64 E) qv (Documents (vectorStore r))) \<longrightarrow>
                sorted_wrt (\<lambda>d e. \<not> f_gt (float64 E) (cos_sim (float64 E) qv (Vector e))
                                                  (cos_sim (float64 E) qv (Vector d))) results)
           \<and> (int (length (Documents (vectorStore r))) \<le> topK \<longrightarrow>
                mset results = mset (Documents (vectorStore r)))"
proof -
  let ?F = "float64 E"
  let ?docs = "Documents (vectorStore r)"
  let ?lt = "\<lambda>x y. f_gt ?F (Score x) (Score y)"
  let ?in = "scored ?F qv ?docs"
  let ?s = "sort_Slice E ?lt ?in"
  let ?res = "map Document (take (nat topK) ?s)"
  note c = srt [unfolded sort_Slice_contract_def, rule_format, of ?lt ?in]
  have ms: "mset ?s = mset ?in" by (rule c [THEN conjunct1])
  have so: "strict_weak_order ?lt (set ?in) \<Longrightarrow> sorted_wrt (\<lambda>x y. \<not> ?lt y x) ?s"
    using c [THEN conjunct2] by (rule mp)
  have "size (mset ?s) = size (mset ?in)" by (simp only: ms)
  then have len: "length ?s = length ?docs" by (simp add: scored_def)
  have "set_mset (mset ?s) = set_mset (mset ?in)" by (simp only: ms)
  then have set_s: "set ?s = set ?in" by simp
  have sc: "\<And>x. x \<in> set ?s \<Longrightarrow> Score x = cos_sim ?F qv (Vector (Document x))"
    unfolding set_s by (auto simp: scored_def)
  have run: "SearchSimilar E r w query topK = Inr (Inr ?res, w')"
    by (rule SearchSimilar_embedded [OF emb])
  have l: "length ?res = min (nat topK) (length ?docs)"
    by (simp add: len min.commute)
  have sorted: "strict_weak_order (f_gt ?F) (scores ?F qv ?docs) \<longrightarrow>
      sorted_wrt (\<lambda>d e. \<not> f_gt ?F (cos_sim ?F qv (Vector e))
                                        (cos_sim ?F qv (Vector d))) ?res"
  proof
    assume ord: "strict_weak_order (f_gt ?F) (scores ?F qv ?docs)"
    have "sorted_wrt (\<lambda>x y. \<not> ?lt y x) ?s"
      by (rule so) (rule strict_weak_order_scored [OF ord])
    moreover have "\<And>x y. x \<in> set ?s \<Longrightarrow> y \<in> set ?s \<Longrightarrow> \<not> ?lt y x \<Longrightarrow>
        \<not> f_gt ?F (cos_sim ?F qv (Vector (Document y))) (cos_sim ?F qv (Vector (Document x)))"
    proof -
      fix x y assume x: "x \<in> set ?s" and y: "y \<in> set ?s" and h: "\<not> ?lt y x"
      from h show "\<not> f_gt ?F (cos_sim ?F qv (Vector (Document y)))
                              (cos_sim ?F qv (Vector (Document x)))"
        unfolding sc [OF x] sc [OF y] .
    qed
    ultimately have "sorted_wrt (\<lambda>x y. \<not> f_gt ?F (cos_sim ?F qv (Vector (Document y)))
                                          (cos_sim ?F qv (Vector (Document x)))) ?s"
      by (rule sorted_wrt_mono_rel [rotated])
    then have "sorted_wrt (\<lambda>x y. \<not> f_gt ?F (cos_sim ?F qv (Vector (Document y)))
                                          (cos_sim ?F qv (Vector (Document x)))) (take (nat topK) ?s)"
      by (rule sorted_wrt_take)
    then show "sorted_wrt (\<lambda>d e. \<not> f_gt ?F (cos_sim ?F qv (Vector e))
                                          (cos_sim ?F qv (Vector d))) ?res"
      by (simp add: sorted_wrt_map)
  qed
  have all: "int (length ?docs) \<le> topK \<longrightarrow> mset ?res = mset ?docs"
  proof
    assume "int (length ?docs) \<le> topK"
    then have "take (nat topK) ?s = ?s" using len by simp
    then have "mset ?res = image_mset Document (mset ?in)"
      by (simp add: ms)
    also have "\<dots> = mset ?docs"
      by (simp add: scored_def image_mset.compositionality comp_def)
    finally show "mset ?res = mset ?docs" .
  qed
  have "0 \<le> topK \<longrightarrow> int (length ?res) \<le> topK"
    unfolding l by auto
  with run l sorted all show ?thesis by (intro exI [of _ ?res] conjI)
qed

section \<open>Retrieval with a score that is not a number\<close>

lemma f64_ops_simps:
  "f_zero f64_ops = Finite 0" "f_add f64_ops = f64_add" "f_mul f64_ops = f64_mul"
  "f_div f64_ops = f64_div" "f_sqrt f64_ops = f64_sqrt" "f_eq f64_ops = f64_eq"
  "f_gt f64_ops = f64_gt"
  by (simp_all add: f64_ops_def)

lemma sqrt_10_300: "sqrt (10 ^ 300) = 10 ^ 150"
  by (rule real_sqrt_unique) (simp_all flip: power_mult_distrib power_add)

lemma overflow_350: "overflow (10 ^ 350) = PosInf"
  by (simp add: overflow_def MaxFloat64_def)

lemma overflow_400: "overflow (10 ^ 400) = PosInf"
  by (simp add: overflow_def MaxFloat64_def)

lemma overflow_300: "overflow (10 ^ 300) = Finite (10 ^ 300)"
  by (simp add: overflow_def MaxFloat64_def)

lemma overflow_150: "overflow (10 ^ 150) = Finite (10 ^ 150)"
  "overflow (- (10 ^ 150)) = Finite (- (10 ^ 150))"
  by (simp_all add: overflow_def MaxFloat64_def)

lemma overflow_small: "overflow 1 = Finite 1" "overflow (- 1) = Finite (- 1)" "overflow 0 = Finite 0"
  by (simp_all add: overflow_def MaxFloat64_def)

lemma cos_sim_huge:
  "cos_sim f64_ops query_huge (Vector doc_minus) = Finite (- 1)"
  "cos_sim f64_ops query_huge (Vector doc_huge) = NaN"
  "cos_sim f64_ops query_huge (Vector doc_plus) = Finite 1"
  by (simp_all add: query_huge_def cos_sim_def doc_minus_def doc_huge_def doc_plus_def
        norm2_def dot_def f64_ops_simps overflow_def MaxFloat64_def infinity_def
        sqrt_10_300 [simplified])

lemma GetEmbedding_huge:
  "GetEmbedding env_huge bot_huge world_empty q
     = (Inr query_huge, world_empty \<lparr> requests :=
          [EmbedRequest ''http://localhost:11434/api/embed'' ''nomic-embed-text'' q] \<rparr>)"
  by (simp add: GetEmbedding_def env_huge_def world_empty_def test_world_def
        bot_huge_def NewRAGChatbot_def)

text \<open>
  Claim C2 as stated fails. The query vector \<open>[1e150]\<close> and the stored vector \<open>[1e200]\<close>
  overflow to a NaN score; the three documents, with scores -1, NaN and 1, are returned
  in the order in which they are stored, the document of score -1 before the document
  of score 1.
\<close>

theorem SearchSimilar_ranked_counterexample:
  "SearchSimilar env_huge bot_huge world_empty ''domanda'' 3
     = Inr (Inr [doc_minus, doc_huge, doc_plus],
            world_empty \<lparr> requests := [EmbedRequest ''http://localhost:11434/api/embed''
                                           ''nomic-embed-text'' ''domanda''] \<rparr>)
   \<and> cosineSimilarity (float64 env_huge) query_huge (Vector doc_minus) = Inr (Finite (- 1))
   \<and> cosineSimilarity (float64 env_huge) query_huge (Vector doc_huge) = Inr NaN
   \<and> cosineSimilarity (float64 env_huge) query_huge (Vector doc_plus) = Inr (Finite 1)
   \<and> f_gt (float64 env_huge) (Finite 1) (Finite (- 1))"
proof -
  have F: "float64 env_huge = f64_ops" by (simp add: env_huge_def)
  have S: "sort_Slice env_huge = insertion_sort" by (simp add: env_huge_def)
  have "SearchSimilar env_huge bot_huge world_empty ''domanda'' 3
     = Inr (Inr [doc_minus, doc_huge, doc_plus],
            world_empty \<lparr> requests := [EmbedRequest ''http://localhost:11434/api/embed''
                                           ''nomic-embed-text'' ''domanda''] \<rparr>)"
    unfolding SearchSimilar_embedded [OF GetEmbedding_huge] F S
    by (simp add: scored_def bot_huge_def NewRAGChatbot_def cos_sim_huge f64_ops_simps)
  then show ?thesis
    by (simp add: F cosineSimilarity_cos_sim cos_sim_huge f64_ops_simps)
qed

section \<open>Properties of answering\<close>

text \<open>
  Claim C8. When the index holds no documents, \<open>Chat\<close> returns the fixed message that asks
  for a document, with no error, and leaves the world as it was: no request is made.
\<close>

theorem Chat_empty_index:
  "Documents (vectorStore r) = [] \<Longrightarrow>
   Chat E r w question = Inr ((''Per favore, carica prima un documento PDF.'', [], None), w)"
  by (simp add: Chat_def)

theorem Chat_empty_index_witness:
  "Chat env_unit_x NewRAGChatbot world_empty ''Che cosa dice il documento?''
     = Inr ((''Per favore, carica prima un documento PDF.'', [], None), world_empty)
   \<and> requests world_empty = []"
  using Chat_empty_index [of NewRAGChatbot env_unit_x world_empty
      "''Che cosa dice il documento?''"]
  by (simp add: NewRAGChatbot_def world_empty_def test_world_def)

lemma GenerateResponse_request:
  "GenerateResponse E r w question context = (res, w') \<Longrightarrow>
   requests w' = requests w @ [GenerateRequest (ollamaBaseURL r @ ''/api/generate'') (chatModel r)
                                 (build_prompt question context)]"
  by (auto simp: GenerateResponse_def Let_def split: prod.splits http_reply.splits)

text \<open>
  Claim C10. On an index that is not empty \<open>Chat\<close> always returns, and the documents it
  returns are at most 4; when it succeeds they are the result of \<open>SearchSimilar\<close> with
  \<open>topK = 4\<close>, and the answer was generated from the prompt built from exactly these
  documents, whatever the size of the index.
\<close>

theorem Chat_top_four:
  assumes "Documents (vectorStore r) \<noteq> []"
  shows "\<exists>answer sources err w2.
           Chat E r w question = Inr ((answer, sources, err), w2)
           \<and> length sources \<le> 4
           \<and> (err = None \<longrightarrow>
                (\<exists>w1. SearchSimilar E r w question 4 = Inr (Inr sources, w1)
                      \<and> GenerateResponse E r w1 question sources = (Inr answer, w2)
                      \<and> last (requests w2)
                          = GenerateRequest (ollamaBaseURL r @ ''/api/generate'') (chatModel r)
                              (build_prompt question sources)))"
proof -
  obtain res w1 where g: "GetEmbedding E r w question = (res, w1)"
    by (cases "GetEmbedding E r w question")
  show ?thesis
  proof (cases res)
    case (Inl err)
    with g have "SearchSimilar E r w question 4 = Inr (Inl err, w1)"
      by (simp add: SearchSimilar_embed_failed)
    with assms have "Chat E r w question = Inr (('''', [], Some err), w1)"
      by (simp add: Chat_def)
    then show ?thesis by simp
  next
    case (Inr qv)
    define sources where "sources = map Document (take (nat 4)
        (sort_Slice E (\<lambda>x y. f_gt (float64 E) (Score x) (Score y))
           (scored (float64 E) qv (Documents (vectorStore r)))))"
    have s: "SearchSimilar E r w question 4 = Inr (Inr sources, w1)"
      using g Inr by (simp add: SearchSimilar_embedded sources_def)
    have l: "length sources \<le> 4" by (simp add: sources_def)
    obtain gres w2 where gen: "GenerateResponse E r w1 question sources = (gres, w2)"
      by (cases "GenerateResponse E r w1 question sources")
    have req: "last (requests w2)
                 = GenerateRequest (ollamaBaseURL r @ ''/api/generate'') (chatModel r)
                     (build_prompt question sources)"
      using GenerateResponse_request [OF gen] by simp
    show ?thesis
    proof (cases gres)
      case (Inl err)
      with assms s gen have "Chat E r w question = Inr (('''', [], Some err), w2)"
        by (simp add: Chat_def)
      then show ?thesis by simp
    next
      case (Inr answer)
      with assms s gen have "Chat E r w question = Inr ((answer, sources, None), w2)"
        by (simp add: Chat_def)
      with l s gen Inr req show ?thesis by auto
    qed
  qed
qed

section \<open>Properties of ingestion\<close>

lemma ChunkText_returns:
  assumes "go_string text" "0 \<le> overlap" "overlap < chunkSize"
  shows "\<exists>chunks. ChunkText text chunkSize overlap = Some (Inr chunks)"
proof (cases "int (length (Fields text)) \<le> chunkSize")
  case True
  then show ?thesis by (simp add: ChunkText_def)
next
  case False
  then have big: "chunkSize < int (length (Fields text))" by simp
  have "2 * length (Fields text) \<le> length text + 1" by (rule Fields_length)
  moreover have "int (length text) < 2 ^ 63" using assms(1) by (simp add: go_string_def)
  ultimately have len: "2 * int (length (Fields text)) \<le> 2 ^ 63" by linarith
  from ChunkText_loop_windows [OF assms(2,3) big len, of 0 "[]"] False
  show ?thesis by (simp add: ChunkText_def Let_def)
qed

lemma length_replace_runs:
  assumes "\<forall>p\<in>set rs. snd p \<noteq> []"
  shows "length (replace_runs cls [c] inrun rs) \<le> length (concat (map snd rs))"
  using assms
proof (induction rs arbitrary: inrun)
  case Nil
  then show ?case by simp
next
  case (Cons p rs)
  obtain r bs where p: "p = (r, bs)" by (cases p)
  from Cons.prems p have bs: "1 \<le> length bs" by (cases bs) auto
  from Cons.prems have rest: "\<forall>p\<in>set rs. snd p \<noteq> []" by simp
  from Cons.IH [OF rest, of True] Cons.IH [OF rest, of False] bs p
  show ?case by simp
qed

lemma length_ReplaceAllString: "length (ReplaceAllString cls src [c]) \<le> length src"
proof -
  have "\<forall>p\<in>set (runes src). snd p \<noteq> []" using runes_nonempty by auto
  from length_replace_runs [OF this, of cls c False] show ?thesis
    by (simp add: ReplaceAllString_def runes_concat)
qed

lemma length_concat_dropWhile:
  "length (concat (map snd (dropWhile P xs))) \<le> length (concat (map snd xs))"
  by (induction xs) auto

lemma length_concat_rev: "length (concat (map snd (rev xs))) = length (concat (map snd xs))"
  by (induction xs) auto

lemma length_TrimSpace: "length (TrimSpace s) \<le> length s"
proof -
  let ?P = "\<lambda>p. IsSpace (fst p)"
  have "length (TrimSpace s)
          = length (concat (map snd (dropWhile ?P (rev (dropWhile ?P (runes s))))))"
    by (simp add: TrimSpace_def length_concat_rev)
  also have "\<dots> \<le> length (concat (map snd (rev (dropWhile ?P (runes s)))))"
    by (rule length_concat_dropWhile)
  also have "\<dots> = length (concat (map snd (dropWhile ?P (runes s))))"
    by (rule length_concat_rev)
  also have "\<dots> \<le> length (concat (map snd (runes s)))"
    by (rule length_concat_dropWhile)
  finally show ?thesis by (simp add: runes_concat)
qed

lemma length_cleanText: "length (cleanText lnpz s) \<le> length s"
proof -
  have "length (cleanText lnpz s)
          \<le> length (ReplaceAllString (\<lambda>r. \<not> lnpz r) (ReplaceAllString perl_space s '' '') '' '')"
    by (simp add: cleanText_def Let_def length_TrimSpace)
  also have "\<dots> \<le> length (ReplaceAllString perl_space s '' '')"
    by (rule length_ReplaceAllString)
  also have "\<dots> \<le> length s" by (rule length_ReplaceAllString)
  finally show ?thesis .
qed

lemma go_string_cleanText: "go_string s \<Longrightarrow> go_string (cleanText lnpz s)"
  using length_cleanText [of lnpz s] by (simp add: go_string_def)

lemma encode_all_Inl:
  "(\<exists>e. encode_all enc xs = Inl e) \<longleftrightarrow> (\<exists>x\<in>set xs. \<exists>e. enc x = Inl e)"
  by (induction xs) (auto split: sum.splits)

lemma encode_float64_Inl: "(\<exists>e. encode_float64 F x = Inl e) \<longleftrightarrow> f_format F x = None"
  by (auto simp: encode_float64_def split: option.splits)

lemma encode_Document_Inl:
  "(\<exists>e. encode_Document F d = Inl e) \<longleftrightarrow> (\<exists>x\<in>set (Vector d). f_format F x = None)"
proof -
  have "(\<exists>e. encode_Document F d = Inl e) \<longleftrightarrow> (\<exists>e. encode_all (encode_float64 F) (Vector d) = Inl e)"
    by (auto simp: encode_Document_def split: sum.splits)
  then show ?thesis by (simp add: encode_all_Inl encode_float64_Inl)
qed

lemma encode_VectorStore_Inl:
  "(\<exists>e. encode_VectorStore F v = Inl e) \<longleftrightarrow> unsupported_float F v"
proof -
  have "(\<exists>e. encode_VectorStore F v = Inl e)
          \<longleftrightarrow> (\<exists>e. encode_all (encode_Document F) (Documents v) = Inl e)"
    by (auto simp: encode_VectorStore_def split: sum.splits)
  then show ?thesis by (simp add: encode_all_Inl encode_Document_Inl unsupported_float_def)
qed

lemma json_MarshalIndent_Inl:
  "(\<exists>e. json_MarshalIndent E v = Inl e) \<longleftrightarrow> unsupported_float (float64 E) v"
proof -
  have "(\<exists>e. json_MarshalIndent E v = Inl e) \<longleftrightarrow> (\<exists>e. encode_VectorStore (float64 E) v = Inl e)"
    by (auto simp: json_MarshalIndent_def split: sum.splits)
  then show ?thesis by (simp add: encode_VectorStore_Inl)
qed

lemma SaveVectorStore_fails:
  "fst (SaveVectorStore E r w) \<noteq> None
     \<longleftrightarrow> unsupported_float (float64 E) (vectorStore r) \<or> write_error w (dbPath r) \<noteq> None"
proof (cases "json_MarshalIndent E (vectorStore r)")
  case (Inl e)
  then have "unsupported_float (float64 E) (vectorStore r)"
    using json_MarshalIndent_Inl [of E "vectorStore r"] by auto
  with Inl show ?thesis by (simp add: SaveVectorStore_def)
next
  case (Inr data)
  then have "\<not> unsupported_float (float64 E) (vectorStore r)"
    using json_MarshalIndent_Inl [of E "vectorStore r"] by auto
  with Inr show ?thesis
    by (auto simp: SaveVectorStore_def os_WriteFile_def split: option.splits)
qed

lemma GetEmbedding_same_files: "GetEmbedding E r w text = (res, w') \<Longrightarrow> same_files w w'"
  by (auto simp: GetEmbedding_def same_files_def Let_def split: prod.splits http_reply.splits if_splits)

lemma same_config_append [simp]: "same_config r (append_Document r' doc) = same_config r r'"
  by (simp add: same_config_def append_Document_def)

lemma ProcessPDF_chunks_keeps:
  "ProcessPDF_chunks E r w pageNum cs = (r', w') \<Longrightarrow>
   same_config r0 r \<Longrightarrow> same_files w0 w \<Longrightarrow> same_config r0 r' \<and> same_files w0 w'"
proof (induction E r w pageNum cs arbitrary: r' w' rule: ProcessPDF_chunks.induct)
  case (1 E r w pageNum)
  then show ?case by simp
next
  case (2 E r w pageNum chunkIdx chunk rest)
  show ?case
  proof (cases "length (TrimSpace chunk) < 20")
    case True
    with 2 show ?thesis by simp
  next
    case False
    obtain res w1 where g: "GetEmbedding E r w chunk = (res, w1)"
      by (cases "GetEmbedding E r w chunk")
    from GetEmbedding_same_files [OF g] "2.prems"(3) have sf: "same_files w0 w1"
      by (simp add: same_files_def)
    show ?thesis
    proof (cases res)
      case (Inl err)
      with 2 False g sf show ?thesis by (simp add: Let_def)
    next
      case (Inr vector)
      with 2 False g sf show ?thesis by (simp add: Let_def)
    qed
  qed
qed

lemma ProcessTXT_chunks_keeps:
  "ProcessTXT_chunks E r w cs = (r', w') \<Longrightarrow>
   same_config r0 r \<Longrightarrow> same_files w0 w \<Longrightarrow> same_config r0 r' \<and> same_files w0 w'"
proof (induction E r w cs arbitrary: r' w' rule: ProcessTXT_chunks.induct)
  case (1 E r w)
  then show ?case by simp
next
  case (2 E r w chunkIdx chunk rest)
  show ?case
  proof (cases "length (TrimSpace chunk) < 20")
    case True
    with 2 show ?thesis by simp
  next
    case False
    obtain res w1 where g: "GetEmbedding E r w chunk = (res, w1)"
      by (cases "GetEmbedding E r w chunk")
    from GetEmbedding_same_files [OF g] "2.prems"(3) have sf: "same_files w0 w1"
      by (simp add: same_files_def)
    show ?thesis
    proof (cases res)
      case (Inl err)
      with 2 False g sf show ?thesis by (simp add: Let_def)
    next
      case (Inr vector)
      with 2 False g sf show ?thesis by (simp add: Let_def)
    qed
  qed
qed

lemma ProcessPDF_pages_returns:
  assumes "\<forall>p\<in>set pages. go_string (snd p)" "same_config r0 r" "same_files w0 w"
  shows "\<exists>r' w'. ProcessPDF_pages E r w pages = Some (Inr (r', w'))
           \<and> same_config r0 r' \<and> same_files w0 w'"
  using assms
proof (induction pages arbitrary: r w)
  case Nil
  then show ?case by simp
next
  case (Cons p pages)
  obtain pageNum pageText where p: "p = (pageNum, pageText)" by (cases p)
  with Cons.prems have "go_string pageText" by simp
  then obtain chunks where c: "ChunkText pageText 300 50 = Some (Inr chunks)"
    using ChunkText_returns [of pageText 50 300] by auto
  obtain r1 w1 where l: "ProcessPDF_chunks E r w pageNum (enumerate 0 chunks) = (r1, w1)"
    by (cases "ProcessPDF_chunks E r w pageNum (enumerate 0 chunks)")
  from ProcessPDF_chunks_keeps [OF l Cons.prems(2,3)]
  have k: "same_config r0 r1" "same_files w0 w1" by simp_all
  from Cons.prems(1) have "\<forall>p\<in>set pages. go_string (snd p)" by simp
  from Cons.IH [OF this k] p c l show ?case by simp
qed

lemma go_string_extract_pages:
  "\<forall>c\<in>set (page_contents pages). go_string c \<Longrightarrow>
   \<forall>c\<in>set (extract_pages lnpz pages). go_string c"
  by (induction lnpz pages rule: extract_pages.induct)
     (auto simp: Let_def go_string_cleanText)

text \<open>
  Claim C6. When the extraction of the source fails, \<open>ProcessPDF\<close> returns that failure and
  leaves the chatbot, with the documents and the model name of its vector store, and
  the world as they were.
\<close>

theorem ProcessPDF_extraction_failure:
  "ExtractTextFromPDF E filename = Inl err \<Longrightarrow>
   ProcessPDF E r w filename = Some (Inr (Some err, r, w))"
  by (simp add: ProcessPDF_def)

theorem ProcessPDF_extraction_failure_witness:
  "ProcessPDF env_no_pdf bot_five world_empty ''manuale.pdf''
     = Some (Inr (Some (Error ''errore apertura PDF: file does not exist''), bot_five, world_empty))"
proof -
  have "ExtractTextFromPDF env_no_pdf ''manuale.pdf''
          = Inl (Error ''errore apertura PDF: file does not exist'')"
    by (simp add: ExtractTextFromPDF_def env_no_pdf_def test_env_def err_msg_def)
  then show ?thesis by (rule ProcessPDF_extraction_failure)
qed

text \<open>
  Claim C5, as amended. Ingestion always returns (for sources that are Go strings), and
  it returns an error exactly in these cases. \<open>ProcessPDF\<close>: the PDF cannot be opened, or the
  vector store cannot be saved. \<open>ProcessTXT\<close>: the file cannot be read, or the cleaned text
  has fewer than 50 bytes, or the vector store cannot be saved. The store cannot be saved
  when one of its numbers has no JSON form or when the file cannot be written. A failed
  embedding of a chunk is never an error of the ingestion, and neither is a PDF whose
  pages are all too short.
\<close>

theorem ingestion_failure:
  "((\<forall>pages. pdf_Open E filename = Inr pages \<longrightarrow> (\<forall>c\<in>set (page_contents pages). go_string c)) \<longrightarrow>
      (\<exists>err r' w'. ProcessPDF E r w filename = Some (Inr (err, r', w'))
         \<and> (err \<noteq> None \<longleftrightarrow>
              (\<exists>e. pdf_Open E filename = Inl e)
              \<or> unsupported_float (float64 E) (vectorStore r')
              \<or> write_error w (dbPath r) \<noteq> None)))
   \<and> ((\<forall>text. files w filename = File text \<longrightarrow> go_string text) \<longrightarrow>
      (\<exists>err r' w'. ProcessTXT E r w filename = Some (Inr (err, r', w'))
         \<and> (err \<noteq> None \<longleftrightarrow>
              (\<forall>text. files w filename \<noteq> File text)
              \<or> (\<exists>text. files w filename = File text
                    \<and> length (TrimSpace (cleanText (unicode_LNPZ E) text)) < 50)
              \<or> unsupported_float (float64 E) (vectorStore r')
              \<or> write_error w (dbPath r) \<noteq> None)))"
proof (intro conjI impI)
  assume gs: "\<forall>pages. pdf_Open E filename = Inr pages \<longrightarrow> (\<forall>c\<in>set (page_contents pages). go_string c)"
  show "\<exists>err r' w'. ProcessPDF E r w filename = Some (Inr (err, r', w'))
         \<and> (err \<noteq> None \<longleftrightarrow>
              (\<exists>e. pdf_Open E filename = Inl e)
              \<or> unsupported_float (float64 E) (vectorStore r')
              \<or> write_error w (dbPath r) \<noteq> None)"
  proof (cases "pdf_Open E filename")
    case (Inl e)
    then have "ProcessPDF E r w filename
                 = Some (Inr (Some (Error (''errore apertura PDF: '' @ err_msg e)), r, w))"
      by (simp add: ProcessPDF_def ExtractTextFromPDF_def)
    with Inl show ?thesis by simp
  next
    case (Inr pages)
    let ?texts = "extract_pages (unicode_LNPZ E) pages"
    let ?r0 = "r\<lparr>vectorStore := (vectorStore r)\<lparr>Documents := []\<rparr>\<rparr>"
    have ex: "ExtractTextFromPDF E filename = Inr ?texts"
      using Inr by (simp add: ExtractTextFromPDF_def)
    from gs Inr have "\<forall>c\<in>set (page_contents pages). go_string c" by simp
    then have "\<forall>c\<in>set ?texts. go_string c" by (rule go_string_extract_pages)
    then have g: "\<forall>p\<in>set (enumerate 0 ?texts). go_string (snd p)"
      by (auto simp: in_set_enumerate_eq)
    have c0: "same_config r ?r0" by (simp add: same_config_def)
    have f0: "same_files w w" by (simp add: same_files_def)
    from ProcessPDF_pages_returns [OF g c0 f0, of E]
    obtain r1 w1 where run: "ProcessPDF_pages E ?r0 w (enumerate 0 ?texts) = Some (Inr (r1, w1))"
      and c1: "same_config r r1" and f1: "same_files w w1" by blast
    define r2 where "r2 = r1\<lparr>vectorStore := (vectorStore r1)\<lparr>ModelName := embedModel r1\<rparr>\<rparr>"
    obtain err w2 where s: "SaveVectorStore E r2 w1 = (err, w2)"
      by (cases "SaveVectorStore E r2 w1")
    have res: "ProcessPDF E r w filename = Some (Inr (err, r2, w2))"
      using ex run s by (simp add: ProcessPDF_def Let_def r2_def)
    have "dbPath r2 = dbPath r" using c1 by (simp add: r2_def same_config_def)
    moreover have "write_error w1 = write_error w" using f1 by (simp add: same_files_def)
    ultimately have "err \<noteq> None \<longleftrightarrow>
        unsupported_float (float64 E) (vectorStore r2) \<or> write_error w (dbPath r) \<noteq> None"
      using SaveVectorStore_fails [of E r2 w1] s by simp
    with res Inr show ?thesis by simp
  qed
next
  assume gs: "\<forall>text. files w filename = File text \<longrightarrow> go_string text"
  show "\<exists>err r' w'. ProcessTXT E r w filename = Some (Inr (err, r', w'))
         \<and> (err \<noteq> None \<longleftrightarrow>
              (\<forall>text. files w filename \<noteq> File text)
              \<or> (\<exists>text. files w filename = File text
                    \<and> length (TrimSpace (cleanText (unicode_LNPZ E) text)) < 50)
              \<or> unsupported_float (float64 E) (vectorStore r')
              \<or> write_error w (dbPath r) \<noteq> None)"
  proof (cases "files w filename")
    case NoFile
    then have "\<exists>e. ProcessTXT E r w filename = Some (Inr (Some e, r, w))"
      by (simp add: ProcessTXT_def os_ReadFile_def)
    with NoFile show ?thesis by auto
  next
    case (Unreadable e)
    then have "\<exists>e. ProcessTXT E r w filename = Some (Inr (Some e, r, w))"
      by (simp add: ProcessTXT_def os_ReadFile_def)
    with Unreadable show ?thesis by auto
  next
    case (File body)
    let ?c = "cleanText (unicode_LNPZ E) body"
    show ?thesis
    proof (cases "length (TrimSpace ?c) < 50")
      case True
      with File have "ProcessTXT E r w filename
                        = Some (Inr (Some (Error ''file TXT troppo corto o vuoto''), r, w))"
        by (simp add: ProcessTXT_def os_ReadFile_def Let_def)
      with File True show ?thesis by simp
    next
      case False
      let ?r0 = "r\<lparr>vectorStore := (vectorStore r)\<lparr>Documents := []\<rparr>\<rparr>"
      from gs File have "go_string body" by simp
      then have "go_string ?c" by (rule go_string_cleanText)
      then obtain chunks where c: "ChunkText ?c 300 50 = Some (Inr chunks)"
        using ChunkText_returns [of ?c 50 300] by auto
      obtain r1 w1 where l: "ProcessTXT_chunks E ?r0 w (enumerate 0 chunks) = (r1, w1)"
        by (cases "ProcessTXT_chunks E ?r0 w (enumerate 0 chunks)")
      have c0: "same_config r ?r0" by (simp add: same_config_def)
      have f0: "same_files w w" by (simp add: same_files_def)
      from ProcessTXT_chunks_keeps [OF l c0 f0]
      have c1: "same_config r r1" and f1: "same_files w w1" by simp_all
      define r2 where "r2 = r1\<lparr>vectorStore := (vectorStore r1)\<lparr>ModelName := embedModel r1\<rparr>\<rparr>"
      obtain err w2 where s: "SaveVectorStore E r2 w1 = (err, w2)"
        by (cases "SaveVectorStore E r2 w1")
      have res: "ProcessTXT E r w filename = Some (Inr (err, r2, w2))"
        using File False c l s by (simp add: ProcessTXT_def os_ReadFile_def Let_def r2_def)
      have "dbPath r2 = dbPath r" using c1 by (simp add: r2_def same_config_def)
      moreover have "write_error w1 = write_error w" using f1 by (simp add: same_files_def)
      ultimately have "err \<noteq> None \<longleftrightarrow>
          unsupported_float (float64 E) (vectorStore r2) \<or> write_error w (dbPath r) \<noteq> None"
        using SaveVectorStore_fails [of E r2 w1] s by simp
      with res File False show ?thesis by simp
    qed
  qed
qed

section \<open>The definitions at work on a small index\<close>

lemma real_lit_ops_simps:
  "f_gt real_lit_ops = (\<lambda>x y. y < x)" "f_zero real_lit_ops = 0"
  "f_eq real_lit_ops = (=)" "f_div real_lit_ops = (/)" "f_mul real_lit_ops = (*)"
  "f_add real_lit_ops = (+)" "f_sqrt real_lit_ops = sqrt"
  by (simp_all add: real_lit_ops_def real_ops_def)

lemma sqrt_25: "sqrt 25 = 5"
  by (rule real_sqrt_unique) simp_all

lemma cos_sim_five:
  "cos_sim real_lit_ops [1, 0] (Vector doc_a) = 0"
  "cos_sim real_lit_ops [1, 0] (Vector doc_b) = 1"
  "cos_sim real_lit_ops [1, 0] (Vector doc_c) = 3 / 5"
  "cos_sim real_lit_ops [1, 0] (Vector doc_d) = 4 / 5"
  "cos_sim real_lit_ops [1, 0] (Vector doc_e) = 0"
  by (simp_all add: cos_sim_def dot_def norm2_def real_lit_ops_simps
        doc_a_def doc_b_def doc_c_def doc_d_def doc_e_def sqrt_25)

lemma GetEmbedding_unit_x:
  "GetEmbedding env_unit_x bot_five world_empty q
     = (Inr [1, 0], world_empty \<lparr> requests :=
          [EmbedRequest ''http://localhost:11434/api/embed'' ''nomic-embed-text'' q] \<rparr>)"
  by (simp add: GetEmbedding_def env_unit_x_def test_env_def world_empty_def test_world_def
        bot_five_def NewRAGChatbot_def)

lemma sorted_five:
  "sort_Slice env_unit_x (\<lambda>x y. f_gt (float64 env_unit_x) (Score x) (Score y))
     (scored (float64 env_unit_x) [1, 0] (Documents (vectorStore bot_five)))
   = [\<lparr>Document = doc_b, Score = 1\<rparr>, \<lparr>Document = doc_d, Score = 4 / 5\<rparr>,
      \<lparr>Document = doc_c, Score = 3 / 5\<rparr>, \<lparr>Document = doc_a, Score = 0\<rparr>,
      \<lparr>Document = doc_e, Score = 0\<rparr>]"
  by (simp add: env_unit_x_def test_env_def scored_def bot_five_def NewRAGChatbot_def
        cos_sim_five real_lit_ops_simps)

lemma GenerateResponse_unit_x:
  "GenerateResponse env_unit_x bot_five w question context
     = (Inr ''risposta'',
        w \<lparr> requests := requests w @ [GenerateRequest ''http://localhost:11434/api/generate'' ''''
                                        (build_prompt question context)] \<rparr>)"
  by (simp add: GenerateResponse_def Let_def env_unit_x_def test_env_def bot_five_def
        NewRAGChatbot_def)

theorem SearchSimilar_ranked_witness:
  "SearchSimilar env_unit_x bot_five world_empty ''domanda'' 2
     = Inr (Inr [doc_b, doc_d],
            world_empty \<lparr> requests := [EmbedRequest ''http://localhost:11434/api/embed''
                                           ''nomic-embed-text'' ''domanda''] \<rparr>)
   \<and> length (Documents (vectorStore bot_five)) = 5"
proof -
  let ?w' = "world_empty \<lparr> requests := [EmbedRequest ''http://localhost:11434/api/embed''
                                           ''nomic-embed-text'' ''domanda''] \<rparr>"
  have F: "float64 env_unit_x = real_lit_ops" by (simp add: env_unit_x_def test_env_def)
  have h1: "sort_Slice_contract (sort_Slice env_unit_x)"
    by (simp add: env_unit_x_def test_env_def insertion_sort_contract)
  have h3: "strict_weak_order (f_gt (float64 env_unit_x))
              (scores (float64 env_unit_x) [1, 0] (Documents (vectorStore bot_five)))"
    unfolding F real_lit_ops_simps by (rule real_gt_strict_weak_order)
  from SearchSimilar_ranked [OF h1 GetEmbedding_unit_x, of "''domanda''" 2] h3
  obtain results where
    r: "SearchSimilar env_unit_x bot_five world_empty ''domanda'' 2 = Inr (Inr results, ?w')"
    and l: "length results = min (nat 2) (length (Documents (vectorStore bot_five)))"
    and o: "sorted_wrt (\<lambda>d e. \<not> f_gt (float64 env_unit_x)
                (cos_sim (float64 env_unit_x) [1, 0] (Vector e))
                (cos_sim (float64 env_unit_x) [1, 0] (Vector d))) results"
    by blast
  have "SearchSimilar env_unit_x bot_five world_empty ''domanda'' 2
          = Inr (Inr [doc_b, doc_d], ?w')"
    unfolding SearchSimilar_embedded [OF GetEmbedding_unit_x] sorted_five by simp
  with r have "results = [doc_b, doc_d]" by simp
  with r l show ?thesis by (simp add: bot_five_def NewRAGChatbot_def)
qed

theorem Chat_top_four_witness:
  "Chat env_unit_x bot_five world_empty ''domanda''
     = Inr ((''risposta'', [doc_b, doc_d, doc_c, doc_a], None),
            world_empty \<lparr> requests :=
              [EmbedRequest ''http://localhost:11434/api/embed'' ''nomic-embed-text'' ''domanda'',
               GenerateRequest ''http://localhost:11434/api/generate'' ''''
                 (build_prompt ''domanda'' [doc_b, doc_d, doc_c, doc_a])] \<rparr>)"
proof -
  have ne: "Documents (vectorStore bot_five) \<noteq> []"
    by (simp add: bot_five_def NewRAGChatbot_def)
  from Chat_top_four [OF ne, of env_unit_x world_empty "''domanda''"]
  obtain answer sources err w2 where
    c: "Chat env_unit_x bot_five world_empty ''domanda'' = Inr ((answer, sources, err), w2)"
    and l: "length sources \<le> 4"
    by blast
  have s: "SearchSimilar env_unit_x bot_five world_empty ''domanda'' 4
          = Inr (Inr [doc_b, doc_d, doc_c, doc_a],
                 world_empty \<lparr> requests := [EmbedRequest ''http://localhost:11434/api/embed''
                                           ''nomic-embed-text'' ''domanda''] \<rparr>)"
    unfolding SearchSimilar_embedded [OF GetEmbedding_unit_x] sorted_five by simp
  have "Chat env_unit_x bot_five world_empty ''domanda''
     = Inr ((''risposta'', [doc_b, doc_d, doc_c, doc_a], None),
            world_empty \<lparr> requests :=
              [EmbedRequest ''http://localhost:11434/api/embed'' ''nomic-embed-text'' ''domanda'',
               GenerateRequest ''http://localhost:11434/api/generate'' ''''
                 (build_prompt ''domanda'' [doc_b, doc_d, doc_c, doc_a])] \<rparr>)"
    using ne by (simp add: Chat_def s GenerateResponse_unit_x)
  with c l show ?thesis by simp
qed

section \<open>Ingestion at work on a note and on small PDFs\<close>

lemma DecodeRune_ascii:
  "(of_char c :: nat) < 128 \<Longrightarrow> DecodeRuneInString (c # cs) = (of_char c, 1)"
  by (simp add: DecodeRuneInString_def byte_at_def)

lemma runes_ascii:
  "\<forall>c\<in>set s. (of_char c :: nat) < 128 \<Longrightarrow> runes s = map (\<lambda>c. (of_char c, [c])) s"
  by (induction s) (simp_all add: DecodeRune_ascii)

lemma ValidString_ascii: "\<forall>c\<in>set s. (of_char c :: nat) < 128 \<Longrightarrow> ValidString s"
proof -
  assume a: "\<forall>c\<in>set s. (of_char c :: nat) < 128"
  have "\<And>c. c \<in> set s \<Longrightarrow> (of_char c :: nat) \<noteq> 65533"
  proof -
    fix c assume "c \<in> set s"
    with a have "(of_char c :: nat) < 128" by simp
    then show "(of_char c :: nat) \<noteq> 65533" by simp
  qed
  then show ?thesis
    by (simp add: ValidString_def runes_ascii [OF a] list_ex_iff ill_formed_def RuneError_def)
qed

lemma ToValidUTF8_valid: "ValidString s \<Longrightarrow> ToValidUTF8 s = s"
proof -
  assume "ValidString s"
  then have "\<forall>p\<in>set (runes s). \<not> ill_formed p"
    by (simp add: ValidString_def list_ex_iff)
  then have "map (\<lambda>p. if ill_formed p then [CHR 0xEF, CHR 0xBF, CHR 0xBD] else snd p) (runes s)
               = map snd (runes s)"
    by simp
  then have "ToValidUTF8 s = concat (map snd (runes s))"
    by (simp only: ToValidUTF8_def)
  then show ?thesis by (simp only: runes_concat)
qed

lemma ascii_nota: "\<forall>c\<in>set nota. (of_char c :: nat) < 128"
  by (simp add: nota_def)

lemma ascii_strings:
  "\<forall>c\<in>set ''txt_chunk_0_00000000''. (of_char c :: nat) < 128"
  "\<forall>c\<in>set ''nomic-embed-text''. (of_char c :: nat) < 128"
  by simp_all

lemma ToValidUTF8_test:
  "ToValidUTF8 nota = nota"
  "ToValidUTF8 ''txt_chunk_0_00000000'' = ''txt_chunk_0_00000000''"
  "ToValidUTF8 ''nomic-embed-text'' = ''nomic-embed-text''"
  by (simp_all add: ToValidUTF8_valid ValidString_ascii ascii_nota)

lemma Itoa_small: "Itoa 0 = ''0''" "Itoa 1 = ''1''"
  by code_simp+

lemma hex_zero: "hex_bytes (take 4 (replicate 16 (CHR 0x00))) = ''00000000''"
  by code_simp

lemma length_nota: "length nota = 57"
  by (simp add: nota_def)

lemma Fields_nota_length: "length (Fields nota) = 10"
  by code_simp

lemma cleanText_nota: "cleanText ascii_LNPZ nota = nota"
  by code_simp

lemma TrimSpace_nota: "TrimSpace nota = nota"
  by code_simp

lemma cleanText_short: "cleanText ascii_LNPZ ''Pagina quasi vuota.'' = ''Pagina quasi vuota.''"
  by code_simp

lemma ChunkText_nota: "ChunkText nota 300 50 = Some (Inr [nota])"
  by (simp add: ChunkText_def Fields_nota_length)

lemma test_env_simps:
  "float64 (test_env emb pdf tab) = real_lit_ops"
  "post_embed (test_env emb pdf tab) = (\<lambda>b url model text. (emb text, b))"
  "pdf_Open (test_env emb pdf tab) = pdf"
  "md5_Sum (test_env emb pdf tab) = (\<lambda>s. replicate 16 (CHR 0x00))"
  "unicode_LNPZ (test_env emb pdf tab) = ascii_LNPZ"
  "json_render (test_env emb pdf tab) = table_render tab"
  "json_scan (test_env emb pdf tab) = table_scan tab"
  "json_foldName (test_env emb pdf tab) = (\<lambda>s. s)"
  by (simp_all add: test_env_def)

lemma NewRAGChatbot_simps:
  "ollamaBaseURL NewRAGChatbot = ''http://localhost:11434''"
  "embedModel NewRAGChatbot = ''nomic-embed-text''"
  "chatModel NewRAGChatbot = ''''"
  "dbPath NewRAGChatbot = ''vectorstore.json''"
  "vectorStore NewRAGChatbot = \<lparr> Documents = [], ModelName = '''' \<rparr>"
  by (simp_all add: NewRAGChatbot_def)

lemma encode_store_nota: "encode_VectorStore real_lit_ops store_nota = Inr json_nota"
  by (simp add: encode_VectorStore_def encode_Document_def encode_float64_def store_nota_def
        doc_nota_def json_nota_def real_lit_ops_def real_ops_def Itoa_small ToValidUTF8_test)

lemma encode_no_documents:
  "encode_VectorStore real_lit_ops \<lparr> Documents = [], ModelName = ''nomic-embed-text'' \<rparr>
     = Inr json_no_documents"
  by (simp add: encode_VectorStore_def json_no_documents_def ToValidUTF8_test)

lemma json_nota_neq: "json_nota \<noteq> json_no_documents"
  by (simp add: json_nota_def json_no_documents_def)

lemma render_table:
  "table_render json_table json_nota = text_nota"
  "table_render json_table json_no_documents = text_no_documents"
  using json_nota_neq by (simp_all add: table_render_def json_table_def)

lemma hex_zero4: "hex_bytes (replicate 4 (CHR 0x00)) = ''00000000''"
  using hex_zero by simp

lemma os_ReadFile_nota: "os_ReadFile (world_nota we) ''appunti.txt'' = Inr nota"
  by (simp add: os_ReadFile_def world_nota_def test_world_def)

lemma ProcessTXT_nota:
  "ProcessTXT env_ok NewRAGChatbot (world_nota we) ''appunti.txt''
     = Some (Inr (case we ''vectorstore.json'' of
                    None \<Rightarrow>
                      (None, NewRAGChatbot\<lparr>vectorStore := store_nota\<rparr>,
                       (world_nota we)
                         \<lparr>files := (files (world_nota we))(''vectorstore.json'' := File text_nota),
                          requests := [EmbedRequest ''http://localhost:11434/api/embed''
                                         ''nomic-embed-text'' nota]\<rparr>)
                  | Some err \<Rightarrow>
                      (Some err, NewRAGChatbot\<lparr>vectorStore := store_nota\<rparr>,
                       (world_nota we)
                         \<lparr>requests := [EmbedRequest ''http://localhost:11434/api/embed''
                                         ''nomic-embed-text'' nota]\<rparr>)))"
  unfolding ProcessTXT_def os_ReadFile_nota
  by (simp add: env_ok_def test_env_simps cleanText_nota TrimSpace_nota length_nota
        ChunkText_nota Let_def GetEmbedding_def Itoa_small hex_zero4 NewRAGChatbot_def
        append_Document_def SaveVectorStore_def json_MarshalIndent_def
        encode_store_nota [unfolded store_nota_def doc_nota_def] render_table
        os_WriteFile_def world_nota_def test_world_def store_nota_def doc_nota_def
        split: option.splits)

lemma ProcessPDF_embed_down:
  "ProcessPDF env_embed_down bot_five world_empty ''manuale.pdf''
     = Some (Inr (None,
                  bot_five\<lparr>vectorStore := \<lparr>Documents = [], ModelName = ''nomic-embed-text''\<rparr>\<rparr>,
                  world_empty
                    \<lparr>files := (files world_empty)(''vectorstore.json'' := File text_no_documents),
                     requests := [EmbedRequest ''http://localhost:11434/api/embed''
                                    ''nomic-embed-text'' nota]\<rparr>))"
  unfolding ProcessPDF_def ExtractTextFromPDF_def
  by (simp add: env_embed_down_def test_env_simps cleanText_nota TrimSpace_nota length_nota
        ChunkText_nota Let_def GetEmbedding_def bot_five_def NewRAGChatbot_def
        SaveVectorStore_def json_MarshalIndent_def encode_no_documents render_table
        os_WriteFile_def world_empty_def test_world_def)

lemma ProcessPDF_short_page:
  "ProcessPDF env_ok bot_five world_empty ''breve.pdf''
     = Some (Inr (None,
                  bot_five\<lparr>vectorStore := \<lparr>Documents = [], ModelName = ''nomic-embed-text''\<rparr>\<rparr>,
                  world_empty
                    \<lparr>files := (files world_empty)(''vectorstore.json'' := File text_no_documents)\<rparr>))"
  unfolding ProcessPDF_def ExtractTextFromPDF_def
  by (simp add: env_ok_def test_env_simps cleanText_short Let_def bot_five_def NewRAGChatbot_def
        SaveVectorStore_def json_MarshalIndent_def encode_no_documents render_table
        os_WriteFile_def world_empty_def test_world_def)

lemma go_string_nota: "go_string nota"
  by (simp add: go_string_def length_nota)

theorem ingestion_failure_witness:
  "ProcessPDF env_embed_down bot_five world_empty ''manuale.pdf''
     = Some (Inr (None,
                  bot_five\<lparr>vectorStore := \<lparr>Documents = [], ModelName = ''nomic-embed-text''\<rparr>\<rparr>,
                  world_empty
                    \<lparr>files := (files world_empty)(''vectorstore.json'' := File text_no_documents),
                     requests := [EmbedRequest ''http://localhost:11434/api/embed''
                                    ''nomic-embed-text'' nota]\<rparr>))
   \<and> ProcessTXT env_ok NewRAGChatbot world_nota_ok ''appunti.txt''
     = Some (Inr (None, NewRAGChatbot\<lparr>vectorStore := store_nota\<rparr>,
                  world_nota_ok
                    \<lparr>files := (files world_nota_ok)(''vectorstore.json'' := File text_nota),
                     requests := [EmbedRequest ''http://localhost:11434/api/embed''
                                    ''nomic-embed-text'' nota]\<rparr>))"
proof -
  have h1: "\<forall>pages. pdf_Open env_embed_down ''manuale.pdf'' = Inr pages \<longrightarrow>
              (\<forall>c\<in>set (page_contents pages). go_string c)"
    by (auto simp: env_embed_down_def test_env_simps go_string_nota)
  have h2: "\<forall>body. files world_nota_ok ''appunti.txt'' = File body \<longrightarrow> go_string body"
    by (simp add: world_nota_ok_def world_nota_def test_world_def go_string_nota)
  note t = ingestion_failure [of env_embed_down "''manuale.pdf''" bot_five world_empty]
  from t [THEN conjunct1, THEN mp, OF h1]
  obtain err r' w' where
    p: "ProcessPDF env_embed_down bot_five world_empty ''manuale.pdf'' = Some (Inr (err, r', w'))"
    by blast
  note u = ingestion_failure [of env_ok "''appunti.txt''" NewRAGChatbot world_nota_ok]
  from u [THEN conjunct2, THEN mp, OF h2]
  obtain err2 r2 w2 where
    q: "ProcessTXT env_ok NewRAGChatbot world_nota_ok ''appunti.txt'' = Some (Inr (err2, r2, w2))"
    by blast
  have "ProcessTXT env_ok NewRAGChatbot world_nota_ok ''appunti.txt''
     = Some (Inr (None, NewRAGChatbot\<lparr>vectorStore := store_nota\<rparr>,
                  world_nota_ok
                    \<lparr>files := (files world_nota_ok)(''vectorstore.json'' := File text_nota),
                     requests := [EmbedRequest ''http://localhost:11434/api/embed''
                                    ''nomic-embed-text'' nota]\<rparr>))"
    unfolding world_nota_ok_def ProcessTXT_nota by simp
  with p q show ?thesis
    by (simp add: ProcessPDF_embed_down)
qed

text \<open>
  Claim C5 as stated fails in both directions. A PDF whose only page cleans to 19 bytes is
  ingested without error (its page is skipped); and a text file of 57 bytes that is read
  and embedded gives an error when the vector store cannot be written.
\<close>

theorem ingestion_failure_counterexample:
  "ProcessPDF env_ok bot_five world_empty ''breve.pdf''
     = Some (Inr (None,
                  bot_five\<lparr>vectorStore := \<lparr>Documents = [], ModelName = ''nomic-embed-text''\<rparr>\<rparr>,
                  world_empty
                    \<lparr>files := (files world_empty)(''vectorstore.json'' := File text_no_documents)\<rparr>))
   \<and> pdf_Open env_ok ''breve.pdf'' = Inr [PlainText (Inr ''Pagina quasi vuota.'')]
   \<and> length (cleanText (unicode_LNPZ env_ok) ''Pagina quasi vuota.'') = 19
   \<and> ProcessTXT env_ok NewRAGChatbot world_nota_full ''appunti.txt''
     = Some (Inr (Some (Error ''no space left on device''),
                  NewRAGChatbot\<lparr>vectorStore := store_nota\<rparr>,
                  world_nota_full
                    \<lparr>requests := [EmbedRequest ''http://localhost:11434/api/embed''
                                    ''nomic-embed-text'' nota]\<rparr>))
   \<and> files world_nota_full ''appunti.txt'' = File nota
   \<and> length (TrimSpace (cleanText (unicode_LNPZ env_ok) nota)) = 57"
proof -
  have "ProcessTXT env_ok NewRAGChatbot world_nota_full ''appunti.txt''
     = Some (Inr (Some (Error ''no space left on device''),
                  NewRAGChatbot\<lparr>vectorStore := store_nota\<rparr>,
                  world_nota_full
                    \<lparr>requests := [EmbedRequest ''http://localhost:11434/api/embed''
                                    ''nomic-embed-text'' nota]\<rparr>))"
    unfolding world_nota_full_def ProcessTXT_nota by simp
  moreover have "pdf_Open env_ok ''breve.pdf'' = Inr [PlainText (Inr ''Pagina quasi vuota.'')]"
    by (simp add: env_ok_def test_env_simps)
  moreover have "unicode_LNPZ env_ok = ascii_LNPZ"
    by (simp add: env_ok_def test_env_simps)
  moreover have "files world_nota_full ''appunti.txt'' = File nota"
    by (simp add: world_nota_full_def world_nota_def test_world_def)
  ultimately show ?thesis
    by (simp add: ProcessPDF_short_page cleanText_short cleanText_nota TrimSpace_nota length_nota)
qed

section \<open>Loading the vector store at the start of the program\<close>

lemma ParseInt_1: "ParseInt ''1'' = Some 1"
  by code_simp

lemma LoadVectorStore_unparsed:
  assumes "files w (dbPath r) = NoFile \<or> (\<exists>e. files w (dbPath r) = Unreadable e)
            \<or> (\<exists>data. files w (dbPath r) = File data \<and> json_scan E data = None)"
  shows "\<exists>e. LoadVectorStore E r w = (Some e, r)"
  using assms by (auto simp: LoadVectorStore_def json_Unmarshal_def)

lemma json_Unmarshal_bad:
  "json_Unmarshal env_bad text_bad \<lparr> Documents = [], ModelName = '''' \<rparr>
     = (Some (UnmarshalTypeError ''number'' ''string''),
        \<lparr> Documents = [\<lparr> ID = ''a'', Content = ''x'', Page = 1, Vector = [1] \<rparr>],
          ModelName = '''' \<rparr>)"
  by (simp add: json_Unmarshal_def env_bad_def test_env_def table_scan_def json_bad_def
        decode_VectorStore_def find_field_def decode_slice_def decode_Document_def
        decode_string_def decode_int_def decode_float64_def zero_Document_def saveError_def
        json_kind_def real_lit_ops_def real_ops_def ParseInt_1)

text \<open>
  Claim C7 at a store file that is valid JSON of the wrong shape: the documents are decoded
  before the model name is refused, so \<open>LoadVectorStore\<close> returns an error and the program
  goes on to the menu with one document in the index, not with an empty index.
\<close>

theorem main_start_partial_load:
  "main_start env_bad world_bad
     = (MenuLoop bot_bad, world_bad \<lparr> requests := [TagsRequest ''http://localhost:11434/api/tags''] \<rparr>)
   \<and> LoadVectorStore env_bad NewRAGChatbot
         (world_bad \<lparr> requests := [TagsRequest ''http://localhost:11434/api/tags''] \<rparr>)
       = (Some (UnmarshalTypeError ''number'' ''string''), bot_bad)
   \<and> length (Documents (vectorStore bot_bad)) = 1"
proof -
  let ?w = "world_bad \<lparr> requests := [TagsRequest ''http://localhost:11434/api/tags''] \<rparr>"
  have c: "CheckOllamaAvailable env_bad NewRAGChatbot world_bad = (None, ?w)"
    by (simp add: CheckOllamaAvailable_def env_bad_def test_env_def NewRAGChatbot_def
          world_bad_def test_world_def)
  have l: "LoadVectorStore env_bad NewRAGChatbot ?w
             = (Some (UnmarshalTypeError ''number'' ''string''), bot_bad)"
    by (simp add: LoadVectorStore_def world_bad_def test_world_def json_Unmarshal_bad
          NewRAGChatbot_def bot_bad_def)
  from c l show ?thesis
    by (simp add: main_start_def Let_def bot_bad_def)
qed

section \<open>Saving and loading the vector store\<close>

lemma of_char_digit_char: "d < 10 \<Longrightarrow> (of_char (digit_char d) :: nat) = 48 + d"
  by (simp add: digit_char_def)

lemma is_digit_digit_char: "d < 10 \<Longrightarrow> is_digit (digit_char d)"
  by (simp add: is_digit_def of_char_digit_char)

lemma dec_digits_nonempty: "dec_digits n \<noteq> []"
  by (subst dec_digits.simps) simp

lemma dec_digits_digits: "list_all is_digit (dec_digits n)"
proof (induction n rule: dec_digits.induct)
  case (1 n)
  show ?case
  proof (cases "n < 10")
    case True
    then show ?thesis by (subst dec_digits.simps) (simp add: is_digit_digit_char)
  next
    case False
    with 1 show ?thesis by (subst dec_digits.simps) (simp add: is_digit_digit_char)
  qed
qed

lemma digits_value_snoc:
  "digits_value (ds @ [c]) = digits_value ds * 10 + ((of_char c :: nat) - 48)"
  by (simp add: digits_value_def)

lemma digits_value_dec_digits: "digits_value (dec_digits n) = n"
proof (induction n rule: dec_digits.induct)
  case (1 n)
  show ?case
  proof (cases "n < 10")
    case True
    then show ?thesis
      by (subst dec_digits.simps) (simp add: digits_value_def of_char_digit_char)
  next
    case False
    with 1 show ?thesis
      by (subst dec_digits.simps) (simp add: digits_value_snoc of_char_digit_char)
  qed
qed

lemma hd_dec_digits: "is_digit (hd (dec_digits n))"
  using dec_digits_digits [of n] dec_digits_nonempty [of n]
  by (cases "dec_digits n") simp_all

lemma is_digit_not_sign: "is_digit c \<Longrightarrow> c \<noteq> CHR ''-'' \<and> c \<noteq> CHR ''+''"
  by (auto simp: is_digit_def)

lemma ParseInt_Itoa:
  assumes "- (2 ^ 63) \<le> n" "n < 2 ^ 63"
  shows "ParseInt (Itoa n) = Some n"
proof (cases "n < 0")
  case True
  then have i: "Itoa n = CHR ''-'' # dec_digits (nat (- n))" by (simp add: Itoa_def)
  have "int (digits_value (dec_digits (nat (- n)))) = - n"
    using True by (simp add: digits_value_dec_digits)
  then show ?thesis
    using assms True
    by (simp add: ParseInt_def i Let_def dec_digits_nonempty dec_digits_digits)
next
  case False
  then have i: "Itoa n = dec_digits (nat n)" by (simp add: Itoa_def)
  from is_digit_not_sign [OF hd_dec_digits [of "nat n"]]
  have h: "hd (dec_digits (nat n)) \<noteq> CHR ''-''" "hd (dec_digits (nat n)) \<noteq> CHR ''+''"
    by simp_all
  have "int (digits_value (dec_digits (nat n))) = n"
    using False by (simp add: digits_value_dec_digits)
  then show ?thesis
    using assms False h
    by (simp add: ParseInt_def i Let_def dec_digits_nonempty dec_digits_digits)
qed

lemma decode_floats_encoded:
  assumes "\<forall>x\<in>set xs. \<forall>lit. f_format F x = Some lit \<longrightarrow> f_parse F lit = Some x"
    and "encode_all (encode_float64 F) xs = Inr js"
  shows "decode_elems (decode_float64 F) z js old se = (xs, se)"
  using assms
proof (induction xs arbitrary: js old)
  case Nil
  then show ?case by simp
next
  case (Cons x xs)
  from Cons.prems(2) obtain j0 js' where
    f0: "encode_float64 F x = Inr j0" and e: "encode_all (encode_float64 F) xs = Inr js'"
    and js0: "js = j0 # js'"
    by (auto split: sum.splits)
  from f0 obtain lit where f: "f_format F x = Some lit" and j0: "j0 = JNumber lit"
    by (auto simp: encode_float64_def split: option.splits)
  from js0 j0 have js: "js = JNumber lit # js'" by simp
  from Cons.prems(1) f have p: "f_parse F lit = Some x" by simp
  from Cons.prems(1) have "\<forall>x\<in>set xs. \<forall>lit. f_format F x = Some lit \<longrightarrow> f_parse F lit = Some x"
    by simp
  from Cons.IH [OF this e] p show ?case
    by (simp add: js decode_float64_def)
qed

lemma find_field_exact: "key \<in> set names \<Longrightarrow> find_field fld names key = Some key"
  by (simp add: find_field_def)

lemma decode_Document_encoded:
  assumes "ValidString (ID d)" "ValidString (Content d)"
    and "- (2 ^ 63) \<le> Page d" "Page d < 2 ^ 63"
    and "\<forall>x\<in>set (Vector d). \<forall>lit. f_format F x = Some lit \<longrightarrow> f_parse F lit = Some x"
    and "encode_Document F d = Inr j"
  shows "decode_Document F fld j d0 se = (d, se)"
proof -
  from assms(6) obtain js where
    e: "encode_all (encode_float64 F) (Vector d) = Inr js"
    and j: "j = JObject [(''id'', JString (ID d)), (''content'', JString (Content d)),
                         (''page'', JNumber (Itoa (Page d))), (''vector'', JArray js)]"
    using assms(1,2)
    by (auto simp: encode_Document_def ToValidUTF8_valid split: sum.splits)
  have v: "decode_elems (decode_float64 F) (f_zero F) js old se = (Vector d, se)" for old se
    by (rule decode_floats_encoded [OF assms(5) e])
  have p: "ParseInt (Itoa (Page d)) = Some (Page d)"
    by (rule ParseInt_Itoa [OF assms(3,4)])
  show ?thesis
    by (simp add: j decode_Document_def find_field_exact decode_string_def decode_int_def
          decode_slice_def v p)
qed

lemma decode_Documents_encoded:
  assumes "\<forall>d\<in>set ds. ValidString (ID d) \<and> ValidString (Content d)
             \<and> - (2 ^ 63) \<le> Page d \<and> Page d < 2 ^ 63
             \<and> (\<forall>x\<in>set (Vector d). \<forall>lit. f_format F x = Some lit \<longrightarrow> f_parse F lit = Some x)"
    and "encode_all (encode_Document F) ds = Inr js"
  shows "decode_elems (decode_Document F fld) z js old se = (ds, se)"
  using assms
proof (induction ds arbitrary: js old)
  case Nil
  then show ?case by simp
next
  case (Cons d ds)
  from Cons.prems(2) obtain j js' where
    f: "encode_Document F d = Inr j" and e: "encode_all (encode_Document F) ds = Inr js'"
    and js: "js = j # js'"
    by (auto split: sum.splits)
  from Cons.prems(1) have d: "ValidString (ID d)" "ValidString (Content d)"
    "- (2 ^ 63) \<le> Page d" "Page d < 2 ^ 63"
    "\<forall>x\<in>set (Vector d). \<forall>lit. f_format F x = Some lit \<longrightarrow> f_parse F lit = Some x"
    by simp_all
  have one: "decode_Document F fld j d0 se = (d, se)" for d0
    by (rule decode_Document_encoded [OF d f])
  from Cons.prems(1) have rest: "\<forall>d\<in>set ds. ValidString (ID d) \<and> ValidString (Content d)
             \<and> - (2 ^ 63) \<le> Page d \<and> Page d < 2 ^ 63
             \<and> (\<forall>x\<in>set (Vector d). \<forall>lit. f_format F x = Some lit \<longrightarrow> f_parse F lit = Some x)"
    by simp
  from Cons.IH [OF rest e] show ?case
    by (simp add: js one)
qed

lemma decode_VectorStore_encoded:
  assumes "utf8_store v" "int_pages v" "literals_read_back F v"
    and "encode_VectorStore F v = Inr j"
  shows "decode_VectorStore F fld j v0 None = (v, None)"
proof -
  from assms(4) obtain js where
    e: "encode_all (encode_Document F) (Documents v) = Inr js"
    and j: "j = JObject [(''documents'', JArray js), (''model_name'', JString (ModelName v))]"
    using assms(1)
    by (auto simp: encode_VectorStore_def utf8_store_def ToValidUTF8_valid split: sum.splits)
  have "\<forall>d\<in>set (Documents v). ValidString (ID d) \<and> ValidString (Content d)
             \<and> - (2 ^ 63) \<le> Page d \<and> Page d < 2 ^ 63
             \<and> (\<forall>x\<in>set (Vector d). \<forall>lit. f_format F x = Some lit \<longrightarrow> f_parse F lit = Some x)"
    using assms(1-3) by (simp add: utf8_store_def int_pages_def literals_read_back_def)
  from decode_Documents_encoded [OF this e]
  have d: "decode_elems (decode_Document F fld) zero_Document js old se = (Documents v, se)"
    for old se .
  show ?thesis
    by (simp add: j decode_VectorStore_def find_field_exact decode_slice_def decode_string_def d)
qed

text \<open>
  Claim C4, as amended. For a vector store whose strings are valid UTF-8 (and whose page
  numbers are \<open>int\<close> values, and whose numbers are read back from the literals written
  for them, as \<open>strconv\<close> does), when \<open>SaveVectorStore\<close> succeeds and the scanner of
  \<open>encoding/json\<close> reads the document that was written, \<open>LoadVectorStore\<close> with the same
  path succeeds and leaves a store with the same documents and the same model name,
  whatever the store held before.
\<close>

theorem Save_then_Load:
  assumes "utf8_store (vectorStore r)" "int_pages (vectorStore r)"
    and "literals_read_back (float64 E) (vectorStore r)"
    and scan: "\<forall>j. encode_VectorStore (float64 E) (vectorStore r) = Inr j \<longrightarrow>
                 json_scan E (json_render E j) = Some j"
    and save: "SaveVectorStore E r w = (None, w')"
    and path: "dbPath r' = dbPath r"
  shows "LoadVectorStore E r' w' = (None, r'\<lparr>vectorStore := vectorStore r\<rparr>)"
proof -
  from save obtain j where e: "encode_VectorStore (float64 E) (vectorStore r) = Inr j"
    and wr: "os_WriteFile w (dbPath r) (json_render E j) = (None, w')"
    by (auto simp: SaveVectorStore_def json_MarshalIndent_def split: sum.splits)
  from wr have f: "files w' (dbPath r) = File (json_render E j)"
    by (auto simp: os_WriteFile_def split: option.splits)
  from scan e have s: "json_scan E (json_render E j) = Some j" by simp
  have d: "decode_VectorStore (float64 E) (json_foldName E) j (vectorStore r') None
             = (vectorStore r, None)"
    by (rule decode_VectorStore_encoded [OF assms(1-3) e])
  show ?thesis
    by (simp add: LoadVectorStore_def path f json_Unmarshal_def s d)
qed

section \<open>Saving and loading at work\<close>

lemma ToValidUTF8_ff: "ToValidUTF8 [CHR 0xFF] = [CHR 0xEF, CHR 0xBF, CHR 0xBD]"
  by (simp add: ToValidUTF8_def DecodeRuneInString_def byte_at_def ill_formed_def RuneError_def)

lemma encode_ff:
  "encode_VectorStore real_lit_ops (vectorStore bot_ff) = Inr json_ff"
  by (simp add: encode_VectorStore_def bot_ff_def json_ff_def ToValidUTF8_ff)

text \<open>
  Claim C4 as stated fails. A store whose model name is the byte 0xFF is saved without
  error; the file holds the replacement character in its place, and the store that is
  loaded has a model name of three bytes.
\<close>

theorem Save_then_Load_counterexample:
  "SaveVectorStore env_ff bot_ff world_empty
     = (None, world_empty \<lparr> files := (files world_empty)(''vectorstore.json'' := File text_ff) \<rparr>)
   \<and> LoadVectorStore env_ff bot_ff
         (world_empty \<lparr> files := (files world_empty)(''vectorstore.json'' := File text_ff) \<rparr>)
       = (None, bot_ff \<lparr> vectorStore :=
                   \<lparr> Documents = [], ModelName = [CHR 0xEF, CHR 0xBF, CHR 0xBD] \<rparr> \<rparr>)
   \<and> ModelName (vectorStore bot_ff) = [CHR 0xFF]"
proof -
  have F: "float64 env_ff = real_lit_ops" by (simp add: env_ff_def test_env_simps)
  have m: "json_MarshalIndent env_ff (vectorStore bot_ff) = Inr text_ff"
    by (simp add: json_MarshalIndent_def F encode_ff)
       (simp add: env_ff_def test_env_simps table_render_def)
  have p: "dbPath bot_ff = ''vectorstore.json''"
    by (simp add: bot_ff_def NewRAGChatbot_def)
  have s: "SaveVectorStore env_ff bot_ff world_empty
     = (None, world_empty \<lparr> files := (files world_empty)(''vectorstore.json'' := File text_ff) \<rparr>)"
    by (simp add: SaveVectorStore_def m p os_WriteFile_def world_empty_def test_world_def)
  have u: "json_Unmarshal env_ff text_ff v
             = (None, v \<lparr> Documents := [], ModelName := [CHR 0xEF, CHR 0xBF, CHR 0xBD] \<rparr>)" for v
    by (simp add: json_Unmarshal_def env_ff_def test_env_simps table_scan_def json_ff_def
          decode_VectorStore_def find_field_def decode_slice_def decode_string_def)
  have l: "LoadVectorStore env_ff bot_ff
         (world_empty \<lparr> files := (files world_empty)(''vectorstore.json'' := File text_ff) \<rparr>)
       = (None, bot_ff \<lparr> vectorStore :=
                   \<lparr> Documents = [], ModelName = [CHR 0xEF, CHR 0xBF, CHR 0xBD] \<rparr> \<rparr>)"
    by (simp add: LoadVectorStore_def p u)
  from s l show ?thesis by (simp add: bot_ff_def)
qed

lemma ParseInt_0: "ParseInt ''0'' = Some 0"
  by code_simp

theorem Save_then_Load_witness:
  "LoadVectorStore env_ok NewRAGChatbot
       (world_empty \<lparr> files := (files world_empty)(''vectorstore.json'' := File text_nota) \<rparr>)
     = (None, bot_nota)
   \<and> SaveVectorStore env_ok bot_nota world_empty
     = (None, world_empty \<lparr> files := (files world_empty)(''vectorstore.json'' := File text_nota) \<rparr>)"
proof -
  let ?w' = "world_empty \<lparr> files := (files world_empty)(''vectorstore.json'' := File text_nota) \<rparr>"
  have F: "float64 env_ok = real_lit_ops" by (simp add: env_ok_def test_env_simps)
  have v: "vectorStore bot_nota = store_nota" by (simp add: bot_nota_def)
  have h1: "utf8_store (vectorStore bot_nota)"
    by (simp add: v utf8_store_def store_nota_def doc_nota_def ValidString_ascii ascii_nota)
  have h2: "int_pages (vectorStore bot_nota)"
    by (simp add: v int_pages_def store_nota_def doc_nota_def)
  have h3: "literals_read_back (float64 env_ok) (vectorStore bot_nota)"
    by (auto simp: v F literals_read_back_def store_nota_def doc_nota_def real_lit_ops_def
          real_ops_def Itoa_small ParseInt_1 ParseInt_0)
  have R: "json_render env_ok = table_render json_table"
    and S: "json_scan env_ok = table_scan json_table"
    by (simp_all add: env_ok_def test_env_simps)
  have sc: "table_scan json_table text_nota = Some json_nota"
    by (simp add: table_scan_def json_table_def)
  have h4: "\<forall>j. encode_VectorStore (float64 env_ok) (vectorStore bot_nota) = Inr j \<longrightarrow>
              json_scan env_ok (json_render env_ok j) = Some j"
    by (simp add: v F encode_store_nota R S render_table sc)
  have p: "dbPath bot_nota = ''vectorstore.json''"
    by (simp add: bot_nota_def NewRAGChatbot_def)
  have h5: "SaveVectorStore env_ok bot_nota world_empty = (None, ?w')"
    by (simp add: SaveVectorStore_def json_MarshalIndent_def F v encode_store_nota R
          render_table p os_WriteFile_def world_empty_def test_world_def)
  have h6: "dbPath (NewRAGChatbot :: real RAGChatbot) = dbPath bot_nota"
    by (simp add: bot_nota_def)
  from Save_then_Load [OF h1 h2 h3 h4 h5 h6] h5 show ?thesis
    by (simp add: v bot_nota_def)
qed

end
